theory Spec2Isabelle
  imports Complex_Main "HOL-Library.Sublist"
begin

section \<open>Thrown values, the environment and asynchronous operations\<close>

text \<open>
  A value thrown by the TypeScript code. The code reads two properties of a caught
  value: \<^verbatim>\<open>error?.status\<close> (withRetry) and \<^verbatim>\<open>error.message\<close> (loadGithubRepo); either
  may be absent.
\<close>

record js_error =
  status :: "int option"
  message :: "string option"

text \<open>\<^verbatim>\<open>new Error(m)\<close>: a message and no status.\<close>

definition Error :: "string \<Rightarrow> js_error" where
  "Error m = \<lparr>status = None, message = Some m\<rparr>"

text \<open>What reading a property of \<^verbatim>\<open>undefined\<close> throws.\<close>

definition TypeError :: js_error where
  "TypeError = Error ''Cannot read properties of undefined''"

text \<open>\<^verbatim>\<open>String.prototype.includes\<close>: the second string occurs as a contiguous part.\<close>

fun str_includes :: "string \<Rightarrow> string \<Rightarrow> bool" where
  "str_includes [] sub = (sub = [])"
| "str_includes (c # cs) sub = (prefix sub (c # cs) \<or> str_includes cs sub)"

text \<open>
  Ghost events recorded by the two retry loops: every invocation of the wrapped
  operation, and every \<^verbatim>\<open>setTimeout\<close> wait with its delay in milliseconds.
\<close>

datatype event = Attempt | Sleep nat

subsection \<open>Rows of the data store\<close>

text \<open>The \<^verbatim>\<open>Response\<close> type of github.ts, one listed commit.\<close>

record Response =
  commitHash :: string
  commitMessage :: string
  commitAuthorName :: string
  commitAuthorAvatar :: string
  commitDate :: string

text \<open>\<^verbatim>\<open>{...commit, summary}\<close>, and the row that \<^verbatim>\<open>db.commit.create\<close> stores.\<close>

record summarized_commit = Response +
  summary :: string

record commit_row = summarized_commit +
  projectId :: string

record project_row =
  project_id :: string
  githubUrl :: string

text \<open>
  A \<^verbatim>\<open>SourceCodeEmbedding\<close> row. The column \<^verbatim>\<open>summaryEmbedding\<close> is not set by
  \<^verbatim>\<open>db.sourceCodeEmbedding.create\<close>; it is NULL until the raw UPDATE writes it.
\<close>

record source_file =
  fileName :: string
  sourceCode :: string
  summary_f :: string

record embedding_row = source_file +
  row_id :: nat
  projectId_f :: string
  summaryEmbedding :: "real list option"

record database =
  projects :: "project_row list"
  commits :: "commit_row list"
  embeddings :: "embedding_row list"

text \<open>The calls made on the Prisma client.\<close>

datatype db_call =
  Project_findUnique | Commit_findMany | Commit_create
  | SourceCodeEmbedding_create | ExecuteRaw | QueryRaw

subsection \<open>External collaborators\<close>

text \<open>What \<^verbatim>\<open>octokit.rest.repos.listCommits\<close> returns for one commit.\<close>

record gh_commit =
  sha :: string
  commit_message :: "string option"
  commit_author_name :: "string option"
  commit_author_date :: "string option"
  author_avatar_url :: "string option"

text \<open>A langchain \<^verbatim>\<open>Document\<close>: \<^verbatim>\<open>pageContent\<close> and \<^verbatim>\<open>metadata.source\<close>.\<close>

record document =
  pageContent :: string
  metadata_source :: string

text \<open>
  What the streaming completion delivers once it has started: the chunks, and the error
  that ended the stream if it did not end normally.
\<close>

record completion_stream =
  chunks :: "string list"
  failure :: "js_error option"

text \<open>\<^verbatim>\<open>SourceCodeResult\<close> of actions.ts, a row of the search.\<close>

record SourceCodeResult = source_file +
  similarity :: real

text \<open>
  The statement that performVectorSearch gives to \<^verbatim>\<open>db.$queryRaw\<close>, as the storage engine
  receives it:

  \<^verbatim>\<open>SELECT "fileName", "sourceCode", "summary",\<close>
  \<^verbatim>\<open>  1 - ("summaryEmbedding" OP $vector::vector) AS similarity\<close>
  \<^verbatim>\<open>FROM "SourceCodeEmbedding"\<close>
  \<^verbatim>\<open>WHERE 1 - ("summaryEmbedding" OP $vector::vector) > $threshold\<close>
  \<^verbatim>\<open>  AND "projectId" = $projectId\<close>
  \<^verbatim>\<open>ORDER BY similarity DESC LIMIT $limit\<close>

  The text is fixed by the source; the record keeps the operator \<^verbatim>\<open>OP\<close> that the text
  writes between the column and the vector, and the four values bound to it. What the
  statement selects is for the storage engine to say.
\<close>

record vector_query =
  distance_operator :: string
  vectorQuery :: "real list"
  threshold :: real
  of_project :: string
  row_limit :: nat

text \<open>
  A remote call is a function of the state \<open>'w\<close> of the outside world: it either throws
  (\<open>Inl\<close>) or returns (\<open>Inr\<close>), and leaves the world in a new state, so that the same call
  may answer differently the next time.
\<close>

type_synonym ('a, 'w) capability = "'w \<Rightarrow> (js_error + 'a) \<times> 'w"

text \<open>
  The collaborators of the code, all external to the repository:
  \<^item> \<open>elapse\<close>: how the world changes while the program waits in \<^verbatim>\<open>setTimeout\<close>;
  \<^item> \<open>dbFault\<close>: whether the storage layer rejects a call of the Prisma client;
  \<^item> \<open>listCommits\<close>: \<^verbatim>\<open>octokit.rest.repos.listCommits({owner, repo, per_page})\<close>;
  \<^item> \<open>getTime\<close>: \<^verbatim>\<open>new Date(s).getTime()\<close>;
  \<^item> \<open>axios_get\<close>: \<^verbatim>\<open>axios.get(url)\<close>, the \<^verbatim>\<open>data\<close> of the response;
  \<^item> \<open>generateContent\<close>: \<^verbatim>\<open>model.generateContent(parts)\<close>, the text of the response;
  \<^item> \<open>embedContent\<close>: \<^verbatim>\<open>model.embedContent(text)\<close>, the \<^verbatim>\<open>embedding.values\<close>;
  \<^item> \<open>generateContentStream\<close>: \<^verbatim>\<open>model.generateContentStream(prompt)\<close>;
  \<^item> \<open>newLoader\<close>: the error thrown by \<^verbatim>\<open>new GithubRepoLoader(url, options)\<close>, if any;
  \<^item> \<open>loader_load\<close>: \<^verbatim>\<open>loader.load()\<close>;
  \<^item> \<open>queryRaw\<close>: what the storage engine answers to the statement of the search on a
    data store: the rows that it selects, or the error with which it rejects the
    statement.
\<close>

record 'w env =
  elapse :: "nat \<Rightarrow> 'w \<Rightarrow> 'w"
  dbFault :: "db_call \<Rightarrow> 'w \<Rightarrow> js_error option \<times> 'w"
  listCommits :: "string \<Rightarrow> string \<Rightarrow> nat \<Rightarrow> (gh_commit list, 'w) capability"
  getTime :: "string \<Rightarrow> int"
  axios_get :: "string \<Rightarrow> (string, 'w) capability"
  generateContent :: "string list \<Rightarrow> (string, 'w) capability"
  embedContent :: "string \<Rightarrow> (real list, 'w) capability"
  generateContentStream :: "string \<Rightarrow> (completion_stream, 'w) capability"
  newLoader :: "string \<Rightarrow> string option \<Rightarrow> js_error option"
  loader_load :: "string \<Rightarrow> string option \<Rightarrow> (document list, 'w) capability"
  queryRaw :: "vector_query \<Rightarrow> database \<Rightarrow> js_error + SourceCodeResult list"

text \<open>The state the program runs in: the outside world and the data store.\<close>

record 'w sys =
  world :: 'w
  db :: database

text \<open>An \<^verbatim>\<open>async\<close> function: from a state to a rejection or a value, and the new state.\<close>

type_synonym ('a, 'w) async = "'w sys \<Rightarrow> (js_error + 'a) \<times> 'w sys"

definition resolve :: "'a \<Rightarrow> ('a, 'w) async" where
  "resolve v = (\<lambda>s. (Inr v, s))"

definition throw :: "js_error \<Rightarrow> ('a, 'w) async" where
  "throw e = (\<lambda>s. (Inl e, s))"

text \<open>\<^verbatim>\<open>const v = await m; f(v)\<close>: a rejection of \<open>m\<close> skips \<open>f\<close>.\<close>

definition await :: "('a, 'w) async \<Rightarrow> ('a \<Rightarrow> ('b, 'w) async) \<Rightarrow> ('b, 'w) async" where
  "await m f = (\<lambda>s. case m s of (Inl e, s') \<Rightarrow> (Inl e, s') | (Inr v, s') \<Rightarrow> f v s')"

text \<open>\<^verbatim>\<open>try { m } catch (error) { h(error) }\<close>.\<close>

definition try_catch :: "('a, 'w) async \<Rightarrow> (js_error \<Rightarrow> ('a, 'w) async) \<Rightarrow> ('a, 'w) async" where
  "try_catch m h = (\<lambda>s. case m s of (Inl e, s') \<Rightarrow> h e s' | (Inr v, s') \<Rightarrow> (Inr v, s'))"

text \<open>A remote call acts on the world and leaves the data store alone.\<close>

definition call :: "('a, 'w) capability \<Rightarrow> ('a, 'w) async" where
  "call c = (\<lambda>s. case c (world s) of (r, w') \<Rightarrow> (r, s\<lparr>world := w'\<rparr>))"

text \<open>\<^verbatim>\<open>await new Promise((resolve) => setTimeout(resolve, delay))\<close>.\<close>

definition setTimeout :: "'w env \<Rightarrow> nat \<Rightarrow> 'w sys \<Rightarrow> 'w sys" where
  "setTimeout env delay s = s\<lparr>world := elapse env delay (world s)\<rparr>"

section \<open>github.ts: the retry wrapper\<close>

text \<open>
  The repository holds successive revisions of github.ts. The definitions follow the
  revision of commit ingestion that has \<^verbatim>\<open>withRetry\<close> and the limiter, and the revision that
  loads and indexes a repository.
\<close>

definition RETRY_DELAYS :: "nat list" where
  "RETRY_DELAYS = [1000, 2000, 4000, 8000]"

definition MAX_CONCURRENT :: nat where
  "MAX_CONCURRENT = 5"

text \<open>
  \<^verbatim>\<open>withRetry(fn, retryCount = 0)\<close>. Besides the outcome it returns the ghost trace of the
  run: one \<open>Attempt\<close> for each invocation of \<open>fn\<close>, one \<open>Sleep\<close> for each wait.
\<close>

function withRetry ::
  "'w env \<Rightarrow> ('a, 'w) async \<Rightarrow> nat \<Rightarrow> 'w sys \<Rightarrow> (js_error + 'a) \<times> event list \<times> 'w sys" where
  "withRetry env fn retryCount s =
     (case fn s of
        (Inr v, s') \<Rightarrow> (Inr v, [Attempt], s')
      | (Inl error, s') \<Rightarrow>
          if status error = Some 429 \<and> retryCount < length RETRY_DELAYS
          then (let delay = RETRY_DELAYS ! retryCount in
                case withRetry env fn (retryCount + 1) (setTimeout env delay s') of
                  (r, tr, s'') \<Rightarrow> (r, Attempt # Sleep delay # tr, s''))
          else (Inl error, [Attempt], s'))"
  by pat_completeness auto
termination
  by (relation "measure (\<lambda>(env, fn, retryCount, s). length RETRY_DELAYS - retryCount)") auto

declare withRetry.simps [simp del]

text \<open>A traced operation used where the trace is not looked at.\<close>

definition untraced :: "('w sys \<Rightarrow> (js_error + 'a) \<times> event list \<times> 'w sys) \<Rightarrow> ('a, 'w) async" where
  "untraced m = (\<lambda>s. case m s of (r, tr, s') \<Rightarrow> (r, s'))"

section \<open>gemini.ts: summaries and embeddings\<close>

text \<open>
  \<^verbatim>\<open>aiSummarizeCommit(diff)\<close>: the prompt ends with the diff, and the text of the
  response is returned.
\<close>

definition commit_prompt :: "string \<Rightarrow> string" where
  \<open>commit_prompt diff = ''You are an expert programmer analyzing a git diff for summarization.

Git Diff Format Guide:
1. File Metadata Format:
   Example metadata block:
   diff --git a/lib/index.js b/lib/index.js
   index aadf091..bfef003 100644
   --- a/lib/index.js
   +++ b/lib/index.js

   This indicates that 'lib/index.js' was modified. (This is just an example)

2. Line Modification Indicators:
   - Lines starting with '+': Added content
   - Lines starting with '-': Removed content
   - Lines without '+' or '-': Contextual code (not part of changes)

Output Format:
- Write concise, clear summaries of the changes
- Include relevant filenames in [square brackets] when mentioning 2 files or fewer
- Omit filenames if more than 2 files were modified for that change
- Focus on the actual changes, not the context lines

Example Summary Format:
- "Increased max recordings limit from 10 to 100 [packages/server/recordings_api.ts], [packages/server/constants.ts]"
- "Fixed GitHub action name typo [.github/workflows/gpt-commit-summarizer.yml]"
- "Relocated octokit initialization [src/octokit.ts], [src/index.ts]"
- "Implemented OpenAI completions API [packages/utils/apis/openai.ts]"
- "Adjusted numeric tolerance in test suite" (multiple files affected)

Note: These examples are for format reference only. Please provide your own original summary based on the actual diff content.

Please summarize the following diff:

'' @ diff\<close>

definition aiSummarizeCommit :: "'w env \<Rightarrow> string \<Rightarrow> (string, 'w) async" where
  "aiSummarizeCommit env diff = call (generateContent env [commit_prompt diff])"

text \<open>
  \<^verbatim>\<open>summariseCode(doc)\<close>: the summary of the first 10000 characters of the file, and the
  empty string when the model fails.
\<close>

definition summary_prompt :: "string \<Rightarrow> string \<Rightarrow> string list" where
  \<open>summary_prompt source code =
     [''You are an intelligent senior software engineer who specialized in onboarding junior software engineers onto projects'',
      ''You are onboarding a junior software engineer and explaining to them the purpose of the '' @ source @ '' file
     Here is the code
     ---
     '' @ code @ ''
     ---
     Give a summary no more than 100 words of the code above'']\<close>

definition summariseCode :: "'w env \<Rightarrow> document \<Rightarrow> (string, 'w) async" where
  "summariseCode env doc =
     try_catch
       (let code = take 10000 (pageContent doc)
        in call (generateContent env (summary_prompt (metadata_source doc) code)))
       (\<lambda>error. resolve [])"

text \<open>\<^verbatim>\<open>generateEmbedding(summary)\<close>.\<close>

definition generateEmbedding :: "'w env \<Rightarrow> string \<Rightarrow> (real list, 'w) async" where
  "generateEmbedding env text = call (embedContent env text)"

section \<open>github.ts: commit ingestion\<close>

subsection \<open>The Prisma client\<close>

text \<open>
  A call on the Prisma client first meets the storage layer, which may reject it; a call
  that is not rejected reads or changes the data store.
\<close>

definition prisma :: "'w env \<Rightarrow> db_call \<Rightarrow> (database \<Rightarrow> 'a \<times> database) \<Rightarrow> ('a, 'w) async" where
  "prisma env c f = (\<lambda>s. case dbFault env c (world s) of
       (Some e, w') \<Rightarrow> (Inl e, s\<lparr>world := w'\<rparr>)
     | (None, w') \<Rightarrow> (case f (db s) of (v, d') \<Rightarrow> (Inr v, s\<lparr>world := w', db := d'\<rparr>)))"

text \<open>\<^verbatim>\<open>db.project.findUnique({where: {id: projectId}})\<close>.\<close>

definition db_project_findUnique :: "'w env \<Rightarrow> string \<Rightarrow> (project_row option, 'w) async" where
  "db_project_findUnique env pid =
     prisma env Project_findUnique (\<lambda>d. (find (\<lambda>p. project_id p = pid) (projects d), d))"

text \<open>\<^verbatim>\<open>db.commit.findMany({where: {projectId}})\<close>.\<close>

definition db_commit_findMany :: "'w env \<Rightarrow> string \<Rightarrow> (commit_row list, 'w) async" where
  "db_commit_findMany env pid =
     prisma env Commit_findMany (\<lambda>d. (filter (\<lambda>c. projectId c = pid) (commits d), d))"

text \<open>\<^verbatim>\<open>db.commit.create({data})\<close>: the row is added, and returned.\<close>

definition db_commit_create :: "'w env \<Rightarrow> commit_row \<Rightarrow> (commit_row, 'w) async" where
  "db_commit_create env row =
     prisma env Commit_create (\<lambda>d. (row, d\<lparr>commits := commits d @ [row]\<rparr>))"

subsection \<open>Listing the commits\<close>

text \<open>\<^verbatim>\<open>s.split(c)\<close> for a one-character separator.\<close>

fun split_on :: "char \<Rightarrow> string \<Rightarrow> string list" where
  "split_on c [] = [[]]"
| "split_on c (x # xs) =
     (if x = c then [] # split_on c xs
      else (case split_on c xs of [] \<Rightarrow> [[x]] | y # ys \<Rightarrow> (x # y) # ys))"

text \<open>\<^verbatim>\<open>xs.slice(i, j)\<close> for \<open>0 \<le> i \<le> j\<close>, and \<^verbatim>\<open>xs.slice(-2)\<close>.\<close>

definition slice :: "'a list \<Rightarrow> nat \<Rightarrow> nat \<Rightarrow> 'a list" where
  "slice xs i j = take (j - i) (drop i xs)"

definition slice_last2 :: "'a list \<Rightarrow> 'a list" where
  "slice_last2 xs = drop (length xs - 2) xs"

text \<open>\<^verbatim>\<open>x ?? ""\<close>.\<close>

definition or_empty :: "string option \<Rightarrow> string" where
  "or_empty x = (case x of None \<Rightarrow> [] | Some v \<Rightarrow> v)"

text \<open>\<^verbatim>\<open>new Date(c.commit.author?.date ?? 0).getTime()\<close>.\<close>

definition author_time :: "'w env \<Rightarrow> gh_commit \<Rightarrow> int" where
  "author_time env c = (case commit_author_date c of None \<Rightarrow> 0 | Some d \<Rightarrow> getTime env d)"

definition to_Response :: "gh_commit \<Rightarrow> Response" where
  "to_Response commit =
     \<lparr>commitHash = sha commit,
      commitMessage = or_empty (commit_message commit),
      commitAuthorName = or_empty (commit_author_name commit),
      commitAuthorAvatar = or_empty (author_avatar_url commit),
      commitDate = or_empty (commit_author_date commit)\<rparr>"

text \<open>
  \<^verbatim>\<open>getCommitHashes(githubUrl)\<close>. The comparator of \<^verbatim>\<open>data.sort\<close> is the difference of the
  author times, later first; the sort is stable.
\<close>

definition getCommitHashes ::
  "'w env \<Rightarrow> string \<Rightarrow> 'w sys \<Rightarrow> (js_error + Response list) \<times> event list \<times> 'w sys" where
  "getCommitHashes env url =
     withRetry env
       (case slice_last2 (split_on CHR ''/'' url) of
          [owner, repo] \<Rightarrow>
            if owner = [] \<or> repo = [] then throw (Error ''Invalid GitHub URL'')
            else await (call (listCommits env owner repo 10)) (\<lambda>data.
                   let sortedCommits = sort_key (\<lambda>c. - author_time env c) data
                   in resolve (map to_Response sortedCommits))
        | _ \<Rightarrow> throw (Error ''Invalid GitHub URL''))
       0"

definition fetchProjectGithubUrl :: "'w env \<Rightarrow> string \<Rightarrow> (string, 'w) async" where
  "fetchProjectGithubUrl env pid =
     await (db_project_findUnique env pid) (\<lambda>project.
       case project of
         None \<Rightarrow> throw (Error (''Project with ID '' @ pid @ '' not found.''))
       | Some p \<Rightarrow> resolve (githubUrl p))"

definition filterUnprocessedCommits ::
  "'w env \<Rightarrow> string \<Rightarrow> Response list \<Rightarrow> (Response list, 'w) async" where
  "filterUnprocessedCommits env pid commitHashes =
     await (db_commit_findMany env pid) (\<lambda>processedCommits.
       let processedHashes = set (map commitHash processedCommits)
       in resolve (filter (\<lambda>commit. commitHash commit \<notin> processedHashes) commitHashes))"

subsection \<open>Summarising one commit\<close>

text \<open>
  \<^verbatim>\<open>summariesCommit(githubUrl, commitHash)\<close>. The operation given to withRetry, the
  arrow function \<open>fetch_and_summarize\<close>, has its own \<^verbatim>\<open>try/catch\<close> around the fetch
  and the summary.
\<close>

definition fetch_and_summarize :: "'w env \<Rightarrow> string \<Rightarrow> string \<Rightarrow> (string, 'w) async" where
  "fetch_and_summarize env url hash =
     try_catch
       (await (call (axios_get env (url @ ''/commit/'' @ hash @ ''.diff''))) (\<lambda>data.
          if data = [] then throw (Error ''No diff data received'')
          else await (aiSummarizeCommit env data) (\<lambda>summary.
                 if summary = [] then resolve ''No summary available''
                 else resolve summary)))
       (\<lambda>error. resolve ''Error generating summary'')"

definition summariesCommit ::
  "'w env \<Rightarrow> string \<Rightarrow> string \<Rightarrow> 'w sys \<Rightarrow> (js_error + string) \<times> event list \<times> 'w sys" where
  "summariesCommit env url hash = withRetry env (fetch_and_summarize env url hash) 0"

subsection \<open>The fan-out\<close>

text \<open>
  \<^verbatim>\<open>limit(task)\<close> of p-limit resolves or rejects as the task does. The model runs the
  tasks one after the other in the order of submission; the interleaving of at most
  \<open>MAX_CONCURRENT\<close> running tasks is not represented.
\<close>

definition limit :: "('a, 'w) async \<Rightarrow> ('a, 'w) async" where
  "limit task = task"

text \<open>
  \<^verbatim>\<open>Promise.all\<close>: every task runs; the values are in the order of the tasks, and the
  first rejection, if there is one, is the outcome.
\<close>

fun promise_all :: "('a, 'w) async list \<Rightarrow> ('a list, 'w) async" where
  "promise_all [] s = (Inr [], s)"
| "promise_all (t # ts) s =
     (case t s of (r, s') \<Rightarrow>
        (case promise_all ts s' of (rs, s'') \<Rightarrow>
           ((case r of
               Inl e \<Rightarrow> Inl e
             | Inr v \<Rightarrow> (case rs of Inl e' \<Rightarrow> Inl e' | Inr vs \<Rightarrow> Inr (v # vs))),
            s'')))"

text \<open>The task of pollCommits for one commit: \<^verbatim>\<open>{...commit, summary}\<close>, or \<^verbatim>\<open>null\<close>.\<close>

definition with_summary :: "Response \<Rightarrow> string \<Rightarrow> summarized_commit" where
  "with_summary commit text =
     \<lparr>commitHash = commitHash commit,
      commitMessage = commitMessage commit,
      commitAuthorName = commitAuthorName commit,
      commitAuthorAvatar = commitAuthorAvatar commit,
      commitDate = commitDate commit,
      summary = text\<rparr>"

definition summarize_task ::
  "'w env \<Rightarrow> string \<Rightarrow> Response \<Rightarrow> (summarized_commit option, 'w) async" where
  "summarize_task env url commit =
     try_catch
       (await (untraced (summariesCommit env url (commitHash commit))) (\<lambda>text.
          resolve (Some (with_summary commit text))))
       (\<lambda>error. resolve None)"

subsection \<open>Storing the commits\<close>

definition batchSize :: nat where
  "batchSize = 3"

text \<open>
  The \<^verbatim>\<open>data\<close> of \<^verbatim>\<open>db.commit.create\<close>. The date is kept as the string that
  \<^verbatim>\<open>new Date(summary.commitDate)\<close> is made from.
\<close>

definition commit_data :: "string \<Rightarrow> summarized_commit \<Rightarrow> commit_row" where
  "commit_data pid v =
     \<lparr>commitHash = commitHash v,
      commitMessage = commitMessage v,
      commitAuthorName = commitAuthorName v,
      commitAuthorAvatar = commitAuthorAvatar v,
      commitDate = commitDate v,
      summary = summary v,
      projectId = pid\<rparr>"

text \<open>
  The inner loop, \<^verbatim>\<open>for (const summary of batch)\<close>: a rejected \<^verbatim>\<open>create\<close> is logged and
  the loop goes on; a created row is pushed onto \<^verbatim>\<open>results\<close>.
\<close>

fun store_batch ::
  "'w env \<Rightarrow> string \<Rightarrow> summarized_commit list \<Rightarrow> commit_row list \<Rightarrow> 'w sys
     \<Rightarrow> commit_row list \<times> 'w sys" where
  "store_batch env pid [] results s = (results, s)"
| "store_batch env pid (v # batch) results s =
     (case db_commit_create env (commit_data pid v) s of
        (Inr commit, s') \<Rightarrow> store_batch env pid batch (results @ [commit]) s'
      | (Inl error, s') \<Rightarrow> store_batch env pid batch results s')"

text \<open>
  The outer loop, \<^verbatim>\<open>for (let i = 0; i < validSummaries.length; i += batchSize)\<close>, with the
  wait of 500 ms after each batch.
\<close>

function store_batches ::
  "'w env \<Rightarrow> string \<Rightarrow> summarized_commit list \<Rightarrow> nat \<Rightarrow> commit_row list \<Rightarrow> 'w sys
     \<Rightarrow> commit_row list \<times> 'w sys" where
  "store_batches env pid validSummaries i results s =
     (if i < length validSummaries
      then (let batch = slice validSummaries i (i + batchSize) in
            case store_batch env pid batch results s of
              (results', s') \<Rightarrow>
                store_batches env pid validSummaries (i + batchSize) results'
                  (setTimeout env 500 s'))
      else (results, s))"
  by pat_completeness auto
termination
  by (relation "measure (\<lambda>(env, pid, validSummaries, i, results, s). length validSummaries - i)")
    (auto simp: batchSize_def)

declare store_batches.simps [simp del]

subsection \<open>pollCommits\<close>

definition pollCommits :: "'w env \<Rightarrow> string \<Rightarrow> (commit_row list, 'w) async" where
  "pollCommits env pid =
     try_catch
       (await (fetchProjectGithubUrl env pid) (\<lambda>url.
        await (untraced (getCommitHashes env url)) (\<lambda>commitHashes.
        await (filterUnprocessedCommits env pid commitHashes) (\<lambda>unprocessedCommits.
          if length unprocessedCommits = 0 then resolve []
          else
            await (promise_all
                     (map (\<lambda>commit. limit (summarize_task env url commit)) unprocessedCommits))
              (\<lambda>summaryResponses.
                 let validSummaries = [v. Some v \<leftarrow> summaryResponses]
                 in (\<lambda>s. case store_batches env pid validSummaries 0 [] s of
                            (results, s') \<Rightarrow> (Inr results, s')))))))
       (\<lambda>error. throw error)"

section \<open>github.ts: loading and indexing a repository\<close>

subsection \<open>loadGithubRepo\<close>

definition token_advice :: string where
  "token_advice = ''GitHub API rate limit exceeded. To increase your rate limit, please provide a GitHub token. You can create one at https://github.com/settings/tokens''"

text \<open>\<^verbatim>\<open>error.message.includes("rate limit exceeded")\<close>, for an error that has a message.\<close>

definition rate_limit_message :: "string \<Rightarrow> bool" where
  "rate_limit_message m = str_includes m ''rate limit exceeded''"

text \<open>
  The \<^verbatim>\<open>retry\<close> helper of loadGithubRepo: the loop over \<^verbatim>\<open>attempt\<close>, from the current attempt
  on. A loop that ends without returning gives \<^verbatim>\<open>undefined\<close>, here \<open>None\<close>. The trace is
  as for withRetry.
\<close>

function retry ::
  "'w env \<Rightarrow> ('a, 'w) async \<Rightarrow> nat \<Rightarrow> nat \<Rightarrow> 'w sys
     \<Rightarrow> (js_error + 'a option) \<times> event list \<times> 'w sys" where
  "retry env fn maxAttempts attempt s =
     (if attempt \<le> maxAttempts
      then (case fn s of
              (Inr v, s') \<Rightarrow> (Inr (Some v), [Attempt], s')
            | (Inl error, s') \<Rightarrow>
                if attempt = maxAttempts then (Inl error, [Attempt], s')
                else (case message error of
                        None \<Rightarrow> (Inl TypeError, [Attempt], s')
                      | Some m \<Rightarrow>
                          if rate_limit_message m
                          then (let waitTime = min (1000 * 2 ^ attempt) 10000 in
                                case retry env fn maxAttempts (attempt + 1)
                                       (setTimeout env waitTime s') of
                                  (r, tr, s'') \<Rightarrow> (r, Attempt # Sleep waitTime # tr, s''))
                          else (Inl error, [Attempt], s')))
      else (Inr None, [], s))"
  by pat_completeness auto
termination
  by (relation "measure (\<lambda>(env, fn, maxAttempts, attempt, s). Suc maxAttempts - attempt)") auto

declare retry.simps [simp del]

text \<open>The \<^verbatim>\<open>catch\<close> of loadGithubRepo.\<close>

definition load_failed :: "js_error \<Rightarrow> js_error" where
  "load_failed error =
     (case message error of
        None \<Rightarrow> TypeError
      | Some m \<Rightarrow> if rate_limit_message m then Error token_advice else error)"

definition loadGithubRepo ::
  "'w env \<Rightarrow> string \<Rightarrow> string option \<Rightarrow> 'w sys
     \<Rightarrow> (js_error + document list option) \<times> event list \<times> 'w sys" where
  "loadGithubRepo env url token s =
     (case newLoader env url token of
        Some error \<Rightarrow> (Inl (load_failed error), [], s)
      | None \<Rightarrow>
          (case retry env (call (loader_load env url token)) 3 1 s of
             (Inl error, tr, s') \<Rightarrow> (Inl (load_failed error), tr, s')
           | (Inr docs, tr, s') \<Rightarrow> (Inr docs, tr, s')))"

subsection \<open>generateEmbeddings\<close>

text \<open>An element of \<^verbatim>\<open>allEmbeddings\<close>: \<^verbatim>\<open>{summary, embedding, sourceCode, fileName}\<close>.\<close>

record embedded_file = source_file +
  embedding :: "real list"

text \<open>\<^verbatim>\<open>JSON.parse(JSON.stringify(x))\<close> of a string is the string.\<close>

definition json_copy :: "string \<Rightarrow> string" where
  "json_copy x = x"

definition generateEmbeddings :: "'w env \<Rightarrow> document list \<Rightarrow> (embedded_file list, 'w) async" where
  "generateEmbeddings env docs =
     promise_all
       (map (\<lambda>doc.
               await (summariseCode env doc) (\<lambda>text.
               await (generateEmbedding env text) (\<lambda>vector.
                 resolve \<lparr>fileName = metadata_source doc,
                          sourceCode = json_copy (pageContent doc),
                          summary_f = text,
                          embedding = vector\<rparr>)))
          docs)"

subsection \<open>indexGithubRepo\<close>

text \<open>The id that the data store gives to a new row: one that no row has.\<close>

definition fresh_id :: "database \<Rightarrow> nat" where
  "fresh_id d = Suc (fold max (map row_id (embeddings d)) 0)"

text \<open>
  \<^verbatim>\<open>db.sourceCodeEmbedding.create({data: {summary, sourceCode, fileName, projectId}})\<close>:
  the data has no embedding.
\<close>

definition db_sourceCodeEmbedding_create ::
  "'w env \<Rightarrow> string \<Rightarrow> embedded_file \<Rightarrow> (embedding_row, 'w) async" where
  "db_sourceCodeEmbedding_create env pid e =
     prisma env SourceCodeEmbedding_create (\<lambda>d.
       let row = \<lparr>fileName = fileName e, sourceCode = sourceCode e, summary_f = summary_f e,
                  row_id = fresh_id d, projectId_f = pid, summaryEmbedding = None\<rparr>
       in (row, d\<lparr>embeddings := embeddings d @ [row]\<rparr>))"

text \<open>
  \<^verbatim>\<open>UPDATE "SourceCodeEmbedding" SET "summaryEmbedding" = v::vector WHERE "id" = i\<close>;
  the result is the number of rows changed.
\<close>

definition db_executeRaw_update :: "'w env \<Rightarrow> real list \<Rightarrow> nat \<Rightarrow> (nat, 'w) async" where
  "db_executeRaw_update env v i =
     prisma env ExecuteRaw (\<lambda>d.
       (length (filter (\<lambda>r. row_id r = i) (embeddings d)),
        d\<lparr>embeddings :=
            map (\<lambda>r. if row_id r = i then r\<lparr>summaryEmbedding := Some v\<rparr> else r) (embeddings d)\<rparr>))"

text \<open>\<^verbatim>\<open>!embedding\<close> for an element of \<^verbatim>\<open>allEmbeddings\<close>: an object is never falsy.\<close>

definition falsy :: "embedded_file \<Rightarrow> bool" where
  "falsy e = False"

text \<open>The task of indexGithubRepo for one element of \<^verbatim>\<open>allEmbeddings\<close>.\<close>

definition persist :: "'w env \<Rightarrow> string \<Rightarrow> embedded_file \<Rightarrow> (unit, 'w) async" where
  "persist env pid e =
     (if falsy e then resolve ()
      else await (db_sourceCodeEmbedding_create env pid e) (\<lambda>sourceCodeEmbedding.
           await (db_executeRaw_update env (embedding e) (row_id sourceCodeEmbedding)) (\<lambda>n.
             resolve ())))"

text \<open>
  \<^verbatim>\<open>Promise.allSettled\<close>: every task runs, and the outcomes are collected; it never
  rejects.
\<close>

fun settle_all :: "('a, 'w) async list \<Rightarrow> 'w sys \<Rightarrow> (js_error + 'a) list \<times> 'w sys" where
  "settle_all [] s = ([], s)"
| "settle_all (t # ts) s =
     (case t s of (r, s') \<Rightarrow> (case settle_all ts s' of (rs, s'') \<Rightarrow> (r # rs, s'')))"

definition promise_allSettled :: "('a, 'w) async list \<Rightarrow> ((js_error + 'a) list, 'w) async" where
  "promise_allSettled ts = (\<lambda>s. case settle_all ts s of (rs, s') \<Rightarrow> (Inr rs, s'))"

definition indexGithubRepo :: "'w env \<Rightarrow> string \<Rightarrow> string \<Rightarrow> string option \<Rightarrow> (unit, 'w) async" where
  "indexGithubRepo env pid url token =
     await (untraced (loadGithubRepo env url token)) (\<lambda>loaded.
       case loaded of
         None \<Rightarrow> throw TypeError
       | Some docs \<Rightarrow>
           await (generateEmbeddings env docs) (\<lambda>allEmbeddings.
           await (promise_allSettled (map (persist env pid) allEmbeddings)) (\<lambda>outcomes.
             resolve ())))"

section \<open>actions.ts: answering a question\<close>

definition SIMILARITY_THRESHOLD :: real where
  "SIMILARITY_THRESHOLD = 0.5"

definition MAX_RESULTS :: nat where
  "MAX_RESULTS = 10"

text \<open>\<^verbatim>\<open>formatContext(results)\<close>.\<close>

definition formatContext :: "SourceCodeResult list \<Rightarrow> string" where
  \<open>formatContext results =
     concat (map (\<lambda>doc. ''source: '' @ fileName doc @ ''
code content: '' @ sourceCode doc @ ''
summary of file: '' @ summary_f doc @ ''

'') results)\<close>

text \<open>\<^verbatim>\<open>generatePrompt(context, question)\<close>.\<close>

definition generatePrompt :: "string \<Rightarrow> string \<Rightarrow> string" where
  \<open>generatePrompt context question =
     ''
    You are an AI code assistant who answers questions about the codebase. Your target audience is a technical intern.
    You are a powerful, human-like artificial intelligence with expert knowledge in coding.
    You are helpful, articulate, and provide detailed technical explanations.

    When answering questions about code or specific files, provide detailed, step-by-step instructions.

    START CONTEXT BLOCK
    '' @ context @ ''
    END CONTEXT BLOCK

    START QUESTION
    '' @ question @ ''
    END OF QUESTION

    Guidelines:
    - Only use information from the provided context
    - If the context doesn't contain the answer, respond with "I apologize, but I don't have enough information to answer this question"
    - Do not invent or assume information not present in the context
    - Use markdown syntax, including code snippets where appropriate
    - Provide detailed answers that leave no room for ambiguity
    ''\<close>

subsection \<open>performVectorSearch\<close>

text \<open>
  The statement of the search. Its operator is spelt \<^verbatim>\<open><==>\<close>, in the select list and in
  the condition.
\<close>

definition vector_search :: "real list \<Rightarrow> string \<Rightarrow> vector_query" where
  "vector_search queryVector pid =
     \<lparr>distance_operator = ''<==>'', vectorQuery = queryVector,
      threshold = SIMILARITY_THRESHOLD, of_project = pid, row_limit = MAX_RESULTS\<rparr>"

text \<open>
  \<^verbatim>\<open>db.$queryRaw\<close>: the call is rejected by the storage layer, or the engine answers the
  statement; an engine that rejects the statement makes the call throw. A query does not
  change the data store.
\<close>

definition db_queryRaw :: "'w env \<Rightarrow> vector_query \<Rightarrow> (SourceCodeResult list, 'w) async" where
  "db_queryRaw env statement =
     await (prisma env QueryRaw (\<lambda>d. (queryRaw env statement d, d)))
       (\<lambda>answer. case answer of Inl error \<Rightarrow> throw error | Inr rows \<Rightarrow> resolve rows)"

definition performVectorSearch ::
  "'w env \<Rightarrow> real list \<Rightarrow> string \<Rightarrow> (SourceCodeResult list, 'w) async" where
  "performVectorSearch env queryVector pid =
     try_catch
       (db_queryRaw env (vector_search queryVector pid))
       (\<lambda>error. throw (Error ''Failed to search codebase''))"

subsection \<open>The streamed answer\<close>

definition streamText :: "'w env \<Rightarrow> string \<Rightarrow> (completion_stream, 'w) async" where
  "streamText env prompt =
     try_catch
       (call (generateContentStream env prompt))
       (\<lambda>error. throw (Error ''Failed to generate response''))"

text \<open>
  What \<^verbatim>\<open>createStreamableValue\<close> carries to its reader: the values given to
  \<^verbatim>\<open>stream.update\<close>, and the end of the stream by \<^verbatim>\<open>stream.done\<close> or \<^verbatim>\<open>stream.error\<close>.
\<close>

datatype stream_event = Update string | Done | Failed js_error

text \<open>The loop \<^verbatim>\<open>for await (const delta of textStream) stream.update(delta)\<close>.\<close>

fun forward :: "string list \<Rightarrow> stream_event list \<Rightarrow> stream_event list" where
  "forward [] events = events"
| "forward (delta # rest) events = forward rest (events @ [Update delta])"

text \<open>
  The detached \<^verbatim>\<open>async\<close> block of askQuestion: the events of the stream from its start to
  its end.
\<close>

definition stream_answer :: "'w env \<Rightarrow> string \<Rightarrow> 'w sys \<Rightarrow> stream_event list \<times> 'w sys" where
  "stream_answer env prompt s =
     (case streamText env prompt s of
        (Inl error, s') \<Rightarrow> ([Failed error], s')
      | (Inr textStream, s') \<Rightarrow>
          (case failure textStream of
             None \<Rightarrow> (forward (chunks textStream) [] @ [Done], s')
           | Some error \<Rightarrow> (forward (chunks textStream) [] @ [Failed error], s')))"

text \<open>
  \<^verbatim>\<open>askQuestion(question, projectId)\<close>: the outcome is \<^verbatim>\<open>filesReferences\<close>, or the error
  thrown; with it, the events of the stream that the call created.
\<close>

definition askQuestion ::
  "'w env \<Rightarrow> string \<Rightarrow> string \<Rightarrow> 'w sys
     \<Rightarrow> (js_error + SourceCodeResult list) \<times> stream_event list \<times> 'w sys" where
  "askQuestion env question pid s =
     (case generateEmbedding env question s of
        (Inl error, s1) \<Rightarrow> (Inl error, [Failed error], s1)
      | (Inr queryVector, s1) \<Rightarrow>
          (case performVectorSearch env queryVector pid s1 of
             (Inl error, s2) \<Rightarrow> (Inl error, [Failed error], s2)
           | (Inr searchResults, s2) \<Rightarrow>
               (let context = formatContext searchResults;
                    prompt = generatePrompt context question
                in case stream_answer env prompt s2 of
                     (events, s3) \<Rightarrow> (Inr searchResults, events, s3))))"

section \<open>Notions used in the statements\<close>

text \<open>The outcome is a rejection with \<^verbatim>\<open>status === 429\<close>.\<close>

definition rate_limited :: "js_error + 'a \<Rightarrow> bool" where
  "rate_limited r = (case r of Inl e \<Rightarrow> status e = Some 429 | Inr v \<Rightarrow> False)"

text \<open>The state in which the next attempt starts: after a failed attempt and the wait.\<close>

definition after_wait :: "'w env \<Rightarrow> ('a, 'w) async \<Rightarrow> nat \<Rightarrow> 'w sys \<Rightarrow> 'w sys" where
  "after_wait env fn delay s = setTimeout env delay (snd (fn s))"

text \<open>The outcome is a rejection whose message has \<^verbatim>\<open>rate limit exceeded\<close> in it.\<close>

definition rate_limit_error :: "js_error + 'a \<Rightarrow> bool" where
  "rate_limit_error r =
     (case r of
        Inl e \<Rightarrow> (case message e of None \<Rightarrow> False | Some m \<Rightarrow> rate_limit_message m)
      | Inr v \<Rightarrow> False)"

text \<open>The number of attempts in a trace.\<close>

definition attempts :: "event list \<Rightarrow> nat" where
  "attempts tr = length (filter (\<lambda>ev. ev = Attempt) tr)"

text \<open>The row of a file in the data store \<open>d\<close>, with or without its embedding.\<close>

definition file_row :: "string \<Rightarrow> embedded_file \<Rightarrow> database \<Rightarrow> real list option \<Rightarrow> embedding_row" where
  "file_row pid e d v =
     \<lparr>fileName = fileName e, sourceCode = sourceCode e, summary_f = summary_f e,
      row_id = fresh_id d, projectId_f = pid, summaryEmbedding = v\<rparr>"

text \<open>The commit hashes stored for a project.\<close>

definition stored_hashes :: "string \<Rightarrow> database \<Rightarrow> string list" where
  "stored_hashes pid d = map commitHash (filter (\<lambda>c. projectId c = pid) (commits d))"

text \<open>
  The summary of one commit as a function of what the diff fetch and the summariser
  answer for it: the sentinel when either fails or the diff is empty.
\<close>

definition own_summary ::
  "(string \<Rightarrow> js_error + string) \<Rightarrow> (string list \<Rightarrow> js_error + string) \<Rightarrow> string \<Rightarrow> string
     \<Rightarrow> string" where
  "own_summary fetch summarise url hash =
     (case fetch (url @ ''/commit/'' @ hash @ ''.diff'') of
        Inl e \<Rightarrow> ''Error generating summary''
      | Inr data \<Rightarrow>
          if data = [] then ''Error generating summary''
          else (case summarise [commit_prompt data] of
                  Inl e \<Rightarrow> ''Error generating summary''
                | Inr text \<Rightarrow> if text = [] then ''No summary available'' else text))"

text \<open>An operation that leaves the data store as it found it.\<close>

definition keeps_db :: "('a, 'w) async \<Rightarrow> bool" where
  "keeps_db m = (\<forall>s r s'. m s = (r, s') \<longrightarrow> db s' = db s)"

section \<open>Environments for the examples\<close>

text \<open>
  The world of the examples is a counter advanced by every remote call. Nothing answers
  in \<open>dead_env\<close>; the examples replace the collaborators they need.
\<close>

definition unavailable :: js_error where
  "unavailable = \<lparr>status = Some 503, message = Some ''Service Unavailable''\<rparr>"

definition too_many_requests :: js_error where
  "too_many_requests = \<lparr>status = Some 429, message = Some ''Too Many Requests''\<rparr>"

definition dead_env :: "nat env" where
  "dead_env = \<lparr>
     elapse = (\<lambda>d w. w),
     dbFault = (\<lambda>c w. (None, w)),
     listCommits = (\<lambda>owner repo n w. (Inl unavailable, Suc w)),
     getTime = (\<lambda>d. 0),
     axios_get = (\<lambda>url w. (Inl unavailable, Suc w)),
     generateContent = (\<lambda>parts w. (Inl unavailable, Suc w)),
     embedContent = (\<lambda>text w. (Inl unavailable, Suc w)),
     generateContentStream = (\<lambda>prompt w. (Inl unavailable, Suc w)),
     newLoader = (\<lambda>url token. None),
     loader_load = (\<lambda>url token w. (Inl unavailable, Suc w)),
     queryRaw = (\<lambda>statement d. Inl unavailable) \<rparr>"

definition empty_db :: database where
  "empty_db = \<lparr>projects = [], commits = [], embeddings = []\<rparr>"

definition start :: "nat sys" where
  "start = \<lparr>world = 0, db = empty_db\<rparr>"

text \<open>Operations for the retry examples: the \<open>n\<close>-th call is made in world \<open>n\<close>.\<close>

definition always_429 :: "(string, nat) async" where
  "always_429 = call (\<lambda>w. (Inl too_many_requests, Suc w))"

definition not_found :: "(string, nat) async" where
  "not_found = call (\<lambda>w. (Inl \<lparr>status = Some 404, message = Some ''Not Found''\<rparr>, Suc w))"

definition twice_429 :: "(string, nat) async" where
  "twice_429 = call (\<lambda>w. (if w < 2 then Inl too_many_requests else Inr ''ok'', Suc w))"

text \<open>An operation that is rate-limited once and then not found.\<close>

definition then_404 :: "(string, nat) async" where
  "then_404 = call (\<lambda>w. (if w < 1 then Inl too_many_requests
                           else Inl \<lparr>status = Some 404, message = Some ''Not Found''\<rparr>, Suc w))"

text \<open>
  A repository whose listing has two commits, \<open>c1\<close> and \<open>c2\<close>. In \<open>github_env\<close> the diff of
  \<open>c2\<close> is answered with status 429, every time; in \<open>flaky_env\<close> the summariser fails in
  world 1.
\<close>

definition listed :: "string \<Rightarrow> string \<Rightarrow> gh_commit" where
  "listed hash date =
     \<lparr>sha = hash, commit_message = Some ''msg'', commit_author_name = Some ''ann'',
      commit_author_date = Some date, author_avatar_url = None\<rparr>"

definition repo_url :: string where
  "repo_url = ''https://github.com/o/r''"

definition c2_diff :: "string \<Rightarrow> js_error + string" where
  "c2_diff u = (if u = ''https://github.com/o/r/commit/c2.diff'' then Inl too_many_requests
                else Inr ''diff --git'')"

definition fixed_summary :: "string list \<Rightarrow> js_error + string" where
  "fixed_summary parts = Inr ''Changed x''"

definition github_env :: "nat env" where
  "github_env = dead_env\<lparr>
     listCommits := (\<lambda>owner repo n w. (Inr [listed ''c1'' ''d1'', listed ''c2'' ''d2''], Suc w)),
     axios_get := (\<lambda>u w. (c2_diff u, Suc w)),
     generateContent := (\<lambda>parts w. (fixed_summary parts, Suc w))\<rparr>"

definition flaky_env :: "nat env" where
  "flaky_env = github_env\<lparr>
     generateContent := (\<lambda>parts w. (if w = 1 then Inl unavailable else Inr ''Changed x'', Suc w))\<rparr>"

definition listed_commit :: "string \<Rightarrow> Response" where
  "listed_commit hash =
     \<lparr>commitHash = hash, commitMessage = ''msg'', commitAuthorName = ''ann'',
      commitAuthorAvatar = [], commitDate = ''d''\<rparr>"

text \<open>
  The data store of the examples: one project, linked to the repository, and its commits.
  In \<open>outage_env\<close> the storage layer rejects every \<^verbatim>\<open>db.commit.create\<close> made before
  world 5.
\<close>

definition repo_state :: "nat \<Rightarrow> commit_row list \<Rightarrow> nat sys" where
  "repo_state w cs = \<lparr>world = w,
     db = \<lparr>projects = [\<lparr>project_id = ''p1'', githubUrl = repo_url\<rparr>], commits = cs,
           embeddings = []\<rparr>\<rparr>"

definition listing_c1_c2 :: "Response list" where
  "listing_c1_c2 =
     [\<lparr>commitHash = ''c1'', commitMessage = ''msg'', commitAuthorName = ''ann'',
       commitAuthorAvatar = [], commitDate = ''d1''\<rparr>,
      \<lparr>commitHash = ''c2'', commitMessage = ''msg'', commitAuthorName = ''ann'',
       commitAuthorAvatar = [], commitDate = ''d2''\<rparr>]"

definition rows_c1_c2 :: "commit_row list" where
  "rows_c1_c2 =
     [\<lparr>commitHash = ''c1'', commitMessage = ''msg'', commitAuthorName = ''ann'',
       commitAuthorAvatar = [], commitDate = ''d1'', summary = ''Changed x'',
       projectId = ''p1''\<rparr>,
      \<lparr>commitHash = ''c2'', commitMessage = ''msg'', commitAuthorName = ''ann'',
       commitAuthorAvatar = [], commitDate = ''d2'', summary = ''Error generating summary'',
       projectId = ''p1''\<rparr>]"

definition outage_env :: "nat env" where
  "outage_env = github_env\<lparr>
     dbFault := (\<lambda>c w. (if c = Commit_create \<and> w < 5 then Some unavailable else None, w))\<rparr>"

text \<open>
  A loader that is rate-limited in the worlds before \<open>n\<close> and then delivers one document;
  with \<open>n = 1\<close> it is rate-limited once.
\<close>

definition rate_limit_exceeded :: js_error where
  "rate_limit_exceeded = Error ''API rate limit exceeded for 10.0.0.1''"

definition readme :: document where
  "readme = \<lparr>pageContent = ''# Codojo'', metadata_source = ''README.md''\<rparr>"

definition limited_env :: "nat \<Rightarrow> nat env" where
  "limited_env n = dead_env\<lparr>
     loader_load := (\<lambda>url token w. (if w < n then Inl rate_limit_exceeded else Inr [readme], Suc w))\<rparr>"

text \<open>
  A repository of two files. In \<open>index_env\<close> the summariser fails for the first file (in
  world 1) and the embedding model embeds every text; \<open>strict_embed_env\<close> differs in that
  the embedding model rejects the empty text; in \<open>update_fails_env\<close> the summariser works
  and the storage layer rejects the raw UPDATE.
\<close>

definition file_a :: document where
  "file_a = \<lparr>pageContent = ''export const a = 1'', metadata_source = ''a.ts''\<rparr>"

definition file_b :: document where
  "file_b = \<lparr>pageContent = ''export const b = 2'', metadata_source = ''b.ts''\<rparr>"

definition bad_request :: js_error where
  "bad_request = \<lparr>status = Some 400, message = Some ''empty content''\<rparr>"

definition index_env :: "nat env" where
  "index_env = dead_env\<lparr>
     loader_load := (\<lambda>url token w. (Inr [file_a, file_b], Suc w)),
     generateContent := (\<lambda>parts w. (if w = 1 then Inl unavailable else Inr ''A module'', Suc w)),
     embedContent := (\<lambda>text w. (Inr [1, 0], Suc w))\<rparr>"

definition strict_embed_env :: "nat env" where
  "strict_embed_env = index_env\<lparr>
     embedContent := (\<lambda>text w. (if text = [] then Inl bad_request else Inr [1, 0], Suc w))\<rparr>"

definition update_fails_env :: "nat env" where
  "update_fails_env = index_env\<lparr>
     loader_load := (\<lambda>url token w. (Inr [file_b], Suc w)),
     generateContent := (\<lambda>parts w. (Inr ''A module'', Suc w)),
     dbFault := (\<lambda>c w. (if c = ExecuteRaw then Some unavailable else None, w))\<rparr>"

definition embedded_b :: embedded_file where
  "embedded_b = \<lparr>fileName = ''b.ts'', sourceCode = ''export const b = 2'',
     summary_f = ''A module'', embedding = [1, 0]\<rparr>"

text \<open>Five files stored with their embeddings.\<close>

definition stored_file :: "nat \<Rightarrow> string \<Rightarrow> real list option \<Rightarrow> embedding_row" where
  "stored_file i name v =
     \<lparr>fileName = name, sourceCode = ''code'', summary_f = ''text'', row_id = i,
      projectId_f = ''p1'', summaryEmbedding = v\<rparr>"

definition five_files :: database where
  "five_files = empty_db\<lparr>embeddings :=
     [stored_file 1 ''E1'' (Some [0.9, 0]), stored_file 2 ''E2'' (Some [0.5, 0]),
      stored_file 3 ''E3'' (Some [0.3, 0]), stored_file 4 ''E4'' (Some [0.6, 0]),
      stored_file 5 ''E5'' (Some [0.2, 0])]\<rparr>"

definition found :: "string \<Rightarrow> real \<Rightarrow> SourceCodeResult" where
  "found name x = \<lparr>fileName = name, sourceCode = ''code'', summary_f = ''text'', similarity = x\<rparr>"

text \<open>
  PostgreSQL with pgvector. pgvector defines four operators between two vectors: \<^verbatim>\<open><->\<close>
  (Euclidean distance), \<^verbatim>\<open><#>\<close> (negative inner product), \<^verbatim>\<open><=>\<close> (cosine distance) and
  \<^verbatim>\<open><+>\<close> (taxicab distance). The engine rejects a statement that applies another
  operator to two vectors; to the other statements it answers \<open>rows\<close>.
\<close>

definition pgvector_operators :: "string list" where
  "pgvector_operators = [''<->'', ''<#>'', ''<=>'', ''<+>'']"

definition operator_does_not_exist :: "string \<Rightarrow> js_error" where
  "operator_does_not_exist op = Error (''operator does not exist: vector '' @ op @ '' vector'')"

definition pgvector_env :: "(vector_query \<Rightarrow> database \<Rightarrow> SourceCodeResult list) \<Rightarrow> nat env" where
  "pgvector_env rows = dead_env\<lparr>queryRaw := (\<lambda>statement d.
     if distance_operator statement \<in> set pgvector_operators then Inr (rows statement d)
     else Inl (operator_does_not_exist (distance_operator statement)))\<rparr>"

text \<open>An engine that accepts the statement of the search and answers with two rows.\<close>

definition search_env :: "nat env" where
  "search_env = dead_env\<lparr>queryRaw := (\<lambda>statement d.
     Inr [found ''E1'' 0.9, found ''E4'' 0.6])\<rparr>"

text \<open>
  The streaming example of the specification: the completion delivers three chunks and
  then fails, or ends normally. In \<open>silent_env\<close> the completion does not start.
\<close>

definition hello_stream :: "js_error option \<Rightarrow> completion_stream" where
  "hello_stream fin = \<lparr>chunks = [''Hel'', ''lo, '', '' world''], failure = fin\<rparr>"

definition rag_env :: "js_error option \<Rightarrow> nat env" where
  "rag_env fin = search_env\<lparr>
     embedContent := (\<lambda>text w. (Inr [1, 0], Suc w)),
     generateContentStream := (\<lambda>prompt w. (Inr (hello_stream fin), Suc w))\<rparr>"

definition silent_env :: "nat env" where
  "silent_env = search_env\<lparr>embedContent := (\<lambda>text w. (Inr [1, 0], Suc w))\<rparr>"

definition five_files_state :: "nat \<Rightarrow> nat sys" where
  "five_files_state w = \<lparr>world = w, db = five_files\<rparr>"

text \<open>
  A loader that is rate-limited once and then rejected for another reason, and a loader
  whose construction throws a rate-limit error.
\<close>

definition limited_then_404_env :: "nat env" where
  "limited_then_404_env = dead_env\<lparr>
     loader_load := (\<lambda>url token w.
       (if w < 1 then Inl rate_limit_exceeded
        else Inl \<lparr>status = Some 404, message = Some ''Not Found''\<rparr>, Suc w))\<rparr>"

definition no_loader_env :: "nat env" where
  "no_loader_env = dead_env\<lparr>newLoader := (\<lambda>url token. Some rate_limit_exceeded)\<rparr>"

text \<open>
  The repository with a third commit in its listing. The diff of \<open>c2\<close> cannot be fetched;
  the two other commits are summarised.
\<close>

definition three_commits_env :: "nat env" where
  "three_commits_env = github_env\<lparr>
     listCommits := (\<lambda>owner repo n w.
       (Inr [listed ''c1'' ''d1'', listed ''c2'' ''d2'', listed ''c3'' ''d3''], Suc w))\<rparr>"

definition listing_c1_c2_c3 :: "Response list" where
  "listing_c1_c2_c3 =
     [\<lparr>commitHash = ''c1'', commitMessage = ''msg'', commitAuthorName = ''ann'',
       commitAuthorAvatar = [], commitDate = ''d1''\<rparr>,
      \<lparr>commitHash = ''c2'', commitMessage = ''msg'', commitAuthorName = ''ann'',
       commitAuthorAvatar = [], commitDate = ''d2''\<rparr>,
      \<lparr>commitHash = ''c3'', commitMessage = ''msg'', commitAuthorName = ''ann'',
       commitAuthorAvatar = [], commitDate = ''d3''\<rparr>]"

definition rows_c1_c2_c3 :: "commit_row list" where
  "rows_c1_c2_c3 =
     [\<lparr>commitHash = ''c1'', commitMessage = ''msg'', commitAuthorName = ''ann'',
       commitAuthorAvatar = [], commitDate = ''d1'', summary = ''Changed x'',
       projectId = ''p1''\<rparr>,
      \<lparr>commitHash = ''c2'', commitMessage = ''msg'', commitAuthorName = ''ann'',
       commitAuthorAvatar = [], commitDate = ''d2'', summary = ''Error generating summary'',
       projectId = ''p1''\<rparr>,
      \<lparr>commitHash = ''c3'', commitMessage = ''msg'', commitAuthorName = ''ann'',
       commitAuthorAvatar = [], commitDate = ''d3'', summary = ''Changed x'',
       projectId = ''p1''\<rparr>]"

section \<open>Properties of the retry wrapper\<close>

lemma withRetry_success:
  "fn s = (Inr v, s') \<Longrightarrow> withRetry env fn k s = (Inr v, [Attempt], s')"
  by (simp add: withRetry.simps)

lemma withRetry_other_error:
  "fn s = (Inl e, s') \<Longrightarrow> status e \<noteq> Some 429 \<Longrightarrow> withRetry env fn k s = (Inl e, [Attempt], s')"
  by (simp add: withRetry.simps)

lemma withRetry_exhausted:
  "length RETRY_DELAYS \<le> k \<Longrightarrow> withRetry env fn k s = (fst (fn s), [Attempt], snd (fn s))"
  by (cases "fn s") (auto simp: withRetry.simps split: sum.splits)

lemma withRetry_rate_limited:
  assumes "rate_limited (fst (fn s))" and "k < length RETRY_DELAYS"
  shows "withRetry env fn k s =
    (case withRetry env fn (Suc k) (after_wait env fn (RETRY_DELAYS ! k) s) of
       (r, tr, s'') \<Rightarrow> (r, Attempt # Sleep (RETRY_DELAYS ! k) # tr, s''))"
  using assms
  by (cases "fn s") (auto simp: withRetry.simps [of env fn k s] rate_limited_def after_wait_def
      Let_def split: sum.splits)

lemma withRetry_not_rate_limited:
  "\<not> rate_limited (fst (fn s)) \<Longrightarrow> withRetry env fn k s = (fst (fn s), [Attempt], snd (fn s))"
  by (cases "fn s") (auto simp: withRetry.simps rate_limited_def split: sum.splits)

lemma withRetry_step:
  assumes "rate_limited (fst (fn s))" and "k < 4"
    and "withRetry env fn (Suc k) (after_wait env fn ([1000, 2000, 4000, 8000] ! k) s) = (r, tr, t)"
  shows "withRetry env fn k s = (r, Attempt # Sleep ([1000, 2000, 4000, 8000] ! k) # tr, t)"
  using assms withRetry_rate_limited [where fn = fn and s = s and k = k and env = env]
  by (simp add: RETRY_DELAYS_def)

text \<open>
  C1. The run of withRetry, for every operation: the attempts are made one after the
  other, each after the wait of 1000, 2000, 4000 and 8000 ms that follows a rejection
  with status 429, and the run ends with the outcome of the first attempt that is not
  rejected with status 429, a value or another error, with no further attempt, or with
  the outcome of the fifth attempt. So when every attempt is rejected with status 429
  there are exactly five attempts and four waits, and the last error is propagated. A
  rejection that is not rate-limited is propagated at once, and a value is returned at
  once, whatever the retry count.
\<close>

theorem withRetry_contract:
  "(let s1 = after_wait env fn 1000 s0; s2 = after_wait env fn 2000 s1;
        s3 = after_wait env fn 4000 s2; s4 = after_wait env fn 8000 s3
    in (\<not> rate_limited (fst (fn s0))
        \<longrightarrow> withRetry env fn 0 s0 = (fst (fn s0), [Attempt], snd (fn s0)))
     \<and> (rate_limited (fst (fn s0)) \<and> \<not> rate_limited (fst (fn s1))
        \<longrightarrow> withRetry env fn 0 s0 =
              (fst (fn s1), [Attempt, Sleep 1000, Attempt], snd (fn s1)))
     \<and> (rate_limited (fst (fn s0)) \<and> rate_limited (fst (fn s1))
          \<and> \<not> rate_limited (fst (fn s2))
        \<longrightarrow> withRetry env fn 0 s0 =
              (fst (fn s2), [Attempt, Sleep 1000, Attempt, Sleep 2000, Attempt], snd (fn s2)))
     \<and> (rate_limited (fst (fn s0)) \<and> rate_limited (fst (fn s1)) \<and> rate_limited (fst (fn s2))
          \<and> \<not> rate_limited (fst (fn s3))
        \<longrightarrow> withRetry env fn 0 s0 =
              (fst (fn s3),
               [Attempt, Sleep 1000, Attempt, Sleep 2000, Attempt, Sleep 4000, Attempt],
               snd (fn s3)))
     \<and> (rate_limited (fst (fn s0)) \<and> rate_limited (fst (fn s1)) \<and> rate_limited (fst (fn s2))
          \<and> rate_limited (fst (fn s3))
        \<longrightarrow> withRetry env fn 0 s0 =
              (fst (fn s4),
               [Attempt, Sleep 1000, Attempt, Sleep 2000, Attempt, Sleep 4000, Attempt,
                Sleep 8000, Attempt],
               snd (fn s4))))
   \<and> (fn s = (Inl e, s') \<and> status e \<noteq> Some 429
      \<longrightarrow> withRetry env fn k s = (Inl e, [Attempt], s'))
   \<and> (fn s = (Inr v, s') \<longrightarrow> withRetry env fn k s = (Inr v, [Attempt], s'))"
proof -
  define s1 where "s1 = after_wait env fn 1000 s0"
  define s2 where "s2 = after_wait env fn 2000 s1"
  define s3 where "s3 = after_wait env fn 4000 s2"
  define s4 where "s4 = after_wait env fn 8000 s3"
  have last: "withRetry env fn 4 s4 = (fst (fn s4), [Attempt], snd (fn s4))"
    by (rule withRetry_exhausted) (simp add: RETRY_DELAYS_def)
  have up0: "withRetry env fn 0 s0 = (r, Attempt # Sleep 1000 # tr, t)"
    if "rate_limited (fst (fn s0))" and "withRetry env fn 1 s1 = (r, tr, t)" for r tr t
    using withRetry_step [of fn s0 0 env r tr t] that by (simp add: s1_def)
  have up1: "withRetry env fn 1 s1 = (r, Attempt # Sleep 2000 # tr, t)"
    if "rate_limited (fst (fn s1))" and "withRetry env fn 2 s2 = (r, tr, t)" for r tr t
    using withRetry_step [of fn s1 1 env r tr t] that by (simp add: s2_def eval_nat_numeral)
  have up2: "withRetry env fn 2 s2 = (r, Attempt # Sleep 4000 # tr, t)"
    if "rate_limited (fst (fn s2))" and "withRetry env fn 3 s3 = (r, tr, t)" for r tr t
    using withRetry_step [of fn s2 2 env r tr t] that by (simp add: s3_def eval_nat_numeral)
  have up3: "withRetry env fn 3 s3 = (r, Attempt # Sleep 8000 # tr, t)"
    if "rate_limited (fst (fn s3))" and "withRetry env fn 4 s4 = (r, tr, t)" for r tr t
    using withRetry_step [of fn s3 3 env r tr t] that by (simp add: s4_def eval_nat_numeral)
  have c0: "\<not> rate_limited (fst (fn s0))
        \<longrightarrow> withRetry env fn 0 s0 = (fst (fn s0), [Attempt], snd (fn s0))"
    by (simp add: withRetry_not_rate_limited)
  have c1: "rate_limited (fst (fn s0)) \<and> \<not> rate_limited (fst (fn s1))
        \<longrightarrow> withRetry env fn 0 s0 =
              (fst (fn s1), [Attempt, Sleep 1000, Attempt], snd (fn s1))"
    by (blast intro: up0 withRetry_not_rate_limited)
  have c2: "rate_limited (fst (fn s0)) \<and> rate_limited (fst (fn s1))
          \<and> \<not> rate_limited (fst (fn s2))
        \<longrightarrow> withRetry env fn 0 s0 =
              (fst (fn s2), [Attempt, Sleep 1000, Attempt, Sleep 2000, Attempt], snd (fn s2))"
    by (blast intro: up0 up1 withRetry_not_rate_limited)
  have c3: "rate_limited (fst (fn s0)) \<and> rate_limited (fst (fn s1)) \<and> rate_limited (fst (fn s2))
          \<and> \<not> rate_limited (fst (fn s3))
        \<longrightarrow> withRetry env fn 0 s0 =
              (fst (fn s3),
               [Attempt, Sleep 1000, Attempt, Sleep 2000, Attempt, Sleep 4000, Attempt],
               snd (fn s3))"
    by (blast intro: up0 up1 up2 withRetry_not_rate_limited)
  have c4: "rate_limited (fst (fn s0)) \<and> rate_limited (fst (fn s1)) \<and> rate_limited (fst (fn s2))
          \<and> rate_limited (fst (fn s3))
        \<longrightarrow> withRetry env fn 0 s0 =
              (fst (fn s4),
               [Attempt, Sleep 1000, Attempt, Sleep 2000, Attempt, Sleep 4000, Attempt,
                Sleep 8000, Attempt],
               snd (fn s4))"
    by (blast intro: up0 up1 up2 up3 last)
  show ?thesis
    using c0 c1 c2 c3 c4 withRetry_success [of fn s v s' env k]
      withRetry_other_error [of fn s e s' env k]
    by (simp add: Let_def s1_def s2_def s3_def s4_def)
qed

lemmas example_defs = dead_env_def start_def empty_db_def always_429_def not_found_def
  twice_429_def too_many_requests_def unavailable_def call_def after_wait_def setTimeout_def
  rate_limited_def

theorem withRetry_contract_witness:
  "withRetry dead_env always_429 0 start =
     (Inl too_many_requests,
      [Attempt, Sleep 1000, Attempt, Sleep 2000, Attempt, Sleep 4000, Attempt, Sleep 8000,
       Attempt],
      start\<lparr>world := 5\<rparr>)
   \<and> withRetry dead_env twice_429 0 start =
     (Inr ''ok'', [Attempt, Sleep 1000, Attempt, Sleep 2000, Attempt], start\<lparr>world := 3\<rparr>)
   \<and> withRetry dead_env then_404 0 start =
     (Inl \<lparr>status = Some 404, message = Some ''Not Found''\<rparr>, [Attempt, Sleep 1000, Attempt],
      start\<lparr>world := 2\<rparr>)
   \<and> withRetry dead_env not_found 0 start =
     (Inl \<lparr>status = Some 404, message = Some ''Not Found''\<rparr>, [Attempt], start\<lparr>world := 1\<rparr>)
   \<and> withRetry dead_env not_found 2 start =
     (Inl \<lparr>status = Some 404, message = Some ''Not Found''\<rparr>, [Attempt], start\<lparr>world := 1\<rparr>)
   \<and> withRetry dead_env twice_429 1 (start\<lparr>world := 2\<rparr>) =
     (Inr ''ok'', [Attempt], start\<lparr>world := 3\<rparr>)"
  using withRetry_contract [where env = dead_env and fn = always_429 and ?s0.0 = start]
    withRetry_contract [where env = dead_env and fn = twice_429 and ?s0.0 = start]
    withRetry_contract [where env = dead_env and fn = then_404 and ?s0.0 = start]
    withRetry_contract [where env = dead_env and fn = not_found and ?s0.0 = start]
    withRetry_contract [where env = dead_env and fn = not_found and s = start and k = 2
      and e = "\<lparr>status = Some 404, message = Some ''Not Found''\<rparr>" and s' = "start\<lparr>world := 1\<rparr>"]
    withRetry_contract [where env = dead_env and fn = twice_429 and s = "start\<lparr>world := 2\<rparr>"
      and k = 1 and v = "''ok''" and s' = "start\<lparr>world := 3\<rparr>"]
  by (simp add: example_defs then_404_def Let_def)

section \<open>Summarising a commit never rejects\<close>

lemma try_catch_resolves:
  "\<exists>v s'. try_catch m (\<lambda>error. resolve d) s = (Inr v, s')"
  by (cases "m s") (auto simp: try_catch_def resolve_def split: sum.splits)

lemma fetch_and_summarize_resolves:
  "\<exists>v s'. fetch_and_summarize env url hash s = (Inr v, s')"
  unfolding fetch_and_summarize_def by (rule try_catch_resolves)

lemma summariesCommit_resolves:
  "\<exists>text s'. summariesCommit env url hash s = (Inr text, [Attempt], s')"
  using fetch_and_summarize_resolves [of env url hash s]
  unfolding summariesCommit_def by (blast intro: withRetry_success)

lemma summarize_task_resolves:
  "\<exists>text s'. summarize_task env url commit s = (Inr (Some (with_summary commit text)), s')"
proof -
  obtain tx s' where "summariesCommit env url (commitHash commit) s = (Inr tx, [Attempt], s')"
    using summariesCommit_resolves by blast
  then show ?thesis
    by (auto simp: summarize_task_def try_catch_def await_def untraced_def resolve_def)
qed

lemma fan_out_resolves:
  "\<exists>texts s'. length texts = length cs \<and>
     promise_all (map (\<lambda>commit. limit (summarize_task env url commit)) cs) s =
       (Inr (map (\<lambda>(commit, text). Some (with_summary commit text)) (zip cs texts)), s')"
proof (induction cs arbitrary: s)
  case Nil
  then show ?case by simp
next
  case (Cons c cs')
  obtain tx s1 where t: "summarize_task env url c s = (Inr (Some (with_summary c tx)), s1)"
    using summarize_task_resolves by blast
  obtain texts s2 where len: "length texts = length cs'"
    and r: "promise_all (map (\<lambda>commit. limit (summarize_task env url commit)) cs') s1 =
       (Inr (map (\<lambda>(commit, text). Some (with_summary commit text)) (zip cs' texts)), s2)"
    using Cons.IH by blast
  have "length (tx # texts) = length (c # cs') \<and>
     promise_all (map (\<lambda>commit. limit (summarize_task env url commit)) (c # cs')) s =
       (Inr (map (\<lambda>(commit, text). Some (with_summary commit text)) (zip (c # cs') (tx # texts))), s2)"
    using t r len by (simp add: limit_def)
  then show ?case by blast
qed

lemma fetch_and_summarize_stateless:
  assumes "\<forall>u w. fst (axios_get env u w) = F u"
    and "\<forall>ps w. fst (generateContent env ps w) = G ps"
  shows "\<exists>s'. fetch_and_summarize env url hash s = (Inr (own_summary F G url hash), s')"
proof -
  let ?u = "url @ ''/commit/'' @ hash @ ''.diff''"
  obtain r w1 where a: "axios_get env ?u (world s) = (r, w1)" by (cases "axios_get env ?u (world s)")
  have Fu: "F ?u = r" using assms(1) a by (metis fst_conv)
  show ?thesis
  proof (cases r)
    case (Inl e)
    then show ?thesis using a Fu
      by (simp add: fetch_and_summarize_def try_catch_def await_def call_def resolve_def
          own_summary_def)
  next
    case (Inr d)
    obtain r2 w2 where b: "generateContent env [commit_prompt d] w1 = (r2, w2)"
      by (cases "generateContent env [commit_prompt d] w1")
    have Gd: "G [commit_prompt d] = r2" using assms(2) b by (metis fst_conv)
    show ?thesis using a Fu Inr b Gd
      by (cases r2)
        (simp_all add: fetch_and_summarize_def try_catch_def await_def call_def resolve_def
          throw_def own_summary_def aiSummarizeCommit_def)
  qed
qed

lemma fan_out_stateless:
  assumes "\<forall>u w. fst (axios_get env u w) = F u"
    and "\<forall>ps w. fst (generateContent env ps w) = G ps"
  shows "\<exists>s'. promise_all (map (\<lambda>commit. limit (summarize_task env url commit)) cs) s =
       (Inr (map (\<lambda>commit. Some (with_summary commit (own_summary F G url (commitHash commit)))) cs),
        s')"
proof (induction cs arbitrary: s)
  case Nil
  then show ?case by simp
next
  case (Cons c cs')
  obtain s0 where "fetch_and_summarize env url (commitHash c) s =
      (Inr (own_summary F G url (commitHash c)), s0)"
    using fetch_and_summarize_stateless [OF assms] by blast
  then have t: "summarize_task env url c s =
      (Inr (Some (with_summary c (own_summary F G url (commitHash c)))), s0)"
    by (simp add: summarize_task_def summariesCommit_def withRetry_success try_catch_def
        await_def untraced_def resolve_def)
  obtain s2 where "promise_all (map (\<lambda>commit. limit (summarize_task env url commit)) cs') s0 =
       (Inr (map (\<lambda>commit. Some (with_summary commit (own_summary F G url (commitHash commit)))) cs'),
        s2)"
    using Cons.IH by blast
  with t show ?case by (simp add: limit_def)
qed

section \<open>Operations that do not touch the data store\<close>

lemma keeps_dbD: "keeps_db m \<Longrightarrow> m s = (r, s') \<Longrightarrow> db s' = db s"
  by (auto simp: keeps_db_def)

lemma keeps_db_call [simp]: "keeps_db (call c)"
  by (auto simp: keeps_db_def call_def split: prod.splits)

lemma keeps_db_resolve [simp]: "keeps_db (resolve v)"
  by (simp add: keeps_db_def resolve_def)

lemma keeps_db_throw [simp]: "keeps_db (throw e)"
  by (simp add: keeps_db_def throw_def)

lemma keeps_db_await: "keeps_db m \<Longrightarrow> (\<And>v. keeps_db (f v)) \<Longrightarrow> keeps_db (await m f)"
  unfolding keeps_db_def await_def
  by (auto split: prod.splits sum.splits)

lemma keeps_db_try_catch: "keeps_db m \<Longrightarrow> (\<And>e. keeps_db (h e)) \<Longrightarrow> keeps_db (try_catch m h)"
  unfolding keeps_db_def try_catch_def
  by (auto split: prod.splits sum.splits)

lemma setTimeout_db [simp]: "db (setTimeout env d s) = db s"
  by (simp add: setTimeout_def)

lemma withRetry_db:
  "keeps_db fn \<Longrightarrow> withRetry env fn k s = (r, tr, s') \<Longrightarrow> db s' = db s"
proof (induction env fn k s arbitrary: r tr s' rule: withRetry.induct)
  case (1 env fn retryCount s)
  obtain r0 s0 where f: "fn s = (r0, s0)" by (cases "fn s")
  have d0: "db s0 = db s" using "1.prems"(1) f by (rule keeps_dbD)
  show ?case
  proof (cases r0)
    case (Inr v)
    with f "1.prems" d0 show ?thesis by (simp add: withRetry.simps [of env fn retryCount s])
  next
    case (Inl e)
    show ?thesis
    proof (cases "status e = Some 429 \<and> retryCount < length RETRY_DELAYS")
      case True
      let ?s1 = "setTimeout env (RETRY_DELAYS ! retryCount) s0"
      obtain r1 tr1 s1 where w: "withRetry env fn (retryCount + 1) ?s1 = (r1, tr1, s1)"
        by (metis prod_cases3)
      have "db s1 = db ?s1"
        using "1.IH" [OF f [symmetric] Inl True refl "1.prems"(1) w] .
      with f Inl True w "1.prems" d0 show ?thesis
        by (simp add: withRetry.simps [of env fn retryCount s] Let_def)
    next
      case False
      with f Inl "1.prems" d0 show ?thesis
        by (simp add: withRetry.simps [of env fn retryCount s])
    qed
  qed
qed

lemma keeps_db_untraced_withRetry: "keeps_db fn \<Longrightarrow> keeps_db (untraced (withRetry env fn k))"
  unfolding keeps_db_def untraced_def
  by (auto split: prod.splits dest: withRetry_db [unfolded keeps_db_def, rotated])

lemma keeps_db_fetch_and_summarize: "keeps_db (fetch_and_summarize env url hash)"
  unfolding fetch_and_summarize_def aiSummarizeCommit_def
  by (auto intro!: keeps_db_try_catch keeps_db_await)

lemma keeps_db_summarize_task: "keeps_db (summarize_task env url commit)"
  unfolding summarize_task_def summariesCommit_def
  by (intro keeps_db_try_catch keeps_db_await keeps_db_untraced_withRetry
      keeps_db_fetch_and_summarize keeps_db_resolve)

lemma keeps_db_promise_all: "(\<And>t. t \<in> set ts \<Longrightarrow> keeps_db t) \<Longrightarrow> keeps_db (promise_all ts)"
proof (induction ts)
  case Nil
  then show ?case by (simp add: keeps_db_def)
next
  case (Cons t ts)
  have t: "keeps_db t" and ts: "keeps_db (promise_all ts)"
    using Cons by simp_all
  show ?case
    unfolding keeps_db_def
  proof (intro allI impI)
    fix s r s'
    assume run: "promise_all (t # ts) s = (r, s')"
    obtain r1 s1 where a: "t s = (r1, s1)" by (cases "t s")
    obtain r2 s2 where b: "promise_all ts s1 = (r2, s2)" by (cases "promise_all ts s1")
    have "s' = s2" using run a b by simp
    moreover have "db s1 = db s" using t a by (rule keeps_dbD)
    moreover have "db s2 = db s1" using ts b by (rule keeps_dbD)
    ultimately show "db s' = db s" by simp
  qed
qed

lemma keeps_db_getCommitHashes: "keeps_db (untraced (getCommitHashes env url))"
  unfolding getCommitHashes_def
  by (rule keeps_db_untraced_withRetry)
    (auto simp: Let_def intro!: keeps_db_await split: list.splits)

lemma keeps_db_prisma_read: "keeps_db (prisma env c (\<lambda>d. (f d, d)))"
  by (auto simp: keeps_db_def prisma_def split: prod.splits option.splits)

lemma keeps_db_fetchProjectGithubUrl: "keeps_db (fetchProjectGithubUrl env pid)"
  unfolding fetchProjectGithubUrl_def db_project_findUnique_def
  by (auto intro!: keeps_db_await keeps_db_prisma_read split: option.splits)

lemma filterUnprocessedCommits_result:
  assumes "filterUnprocessedCommits env pid listing s = (r, s')"
  shows "db s' = db s"
    and "r = Inr u \<Longrightarrow> u = filter (\<lambda>c. commitHash c \<notin> set (stored_hashes pid (db s))) listing"
  using assms
  by (auto simp: filterUnprocessedCommits_def db_commit_findMany_def prisma_def await_def
      resolve_def stored_hashes_def Let_def split: prod.splits option.splits)

section \<open>Storing the commits\<close>

lemma db_commit_create_cases:
  assumes "db_commit_create env row s = (r, s')"
  shows "(\<exists>e. r = Inl e \<and> db s' = db s)
       \<or> (r = Inr row \<and> db s' = (db s)\<lparr>commits := commits (db s) @ [row]\<rparr>)"
  using assms
  by (auto simp: db_commit_create_def prisma_def split: prod.splits option.splits)

lemma db_commit_create_no_fault:
  assumes "\<forall>c w. fst (dbFault env c w) = None"
  shows "\<exists>s'. db_commit_create env row s = (Inr row, s')
           \<and> db s' = (db s)\<lparr>commits := commits (db s) @ [row]\<rparr>"
proof -
  obtain o' w' where f: "dbFault env Commit_create (world s) = (o', w')"
    by (cases "dbFault env Commit_create (world s)")
  then have "o' = None" using assms by (metis fst_conv)
  with f show ?thesis by (simp add: db_commit_create_def prisma_def)
qed

lemma store_batch_result:
  "store_batch env pid batch results s = (results', s') \<Longrightarrow>
     \<exists>new. results' = results @ new \<and> db s' = (db s)\<lparr>commits := commits (db s) @ new\<rparr>
       \<and> subseq new (map (commit_data pid) batch)"
proof (induction batch arbitrary: results s)
  case Nil
  then show ?case by simp
next
  case (Cons v batch)
  obtain r s1 where c: "db_commit_create env (commit_data pid v) s = (r, s1)"
    by (cases "db_commit_create env (commit_data pid v) s")
  from db_commit_create_cases [OF c] show ?case
  proof
    assume "\<exists>e. r = Inl e \<and> db s1 = db s"
    then obtain e where r: "r = Inl e" and d: "db s1 = db s" by blast
    from Cons.prems c r have "store_batch env pid batch results s1 = (results', s')" by simp
    from Cons.IH [OF this] d show ?thesis by auto
  next
    assume a: "r = Inr (commit_data pid v) \<and> db s1 = (db s)\<lparr>commits := commits (db s) @ [commit_data pid v]\<rparr>"
    with Cons.prems c
    have "store_batch env pid batch (results @ [commit_data pid v]) s1 = (results', s')" by simp
    from Cons.IH [OF this] obtain new where
      n: "results' = (results @ [commit_data pid v]) @ new"
        "db s' = (db s1)\<lparr>commits := commits (db s1) @ new\<rparr>"
        "subseq new (map (commit_data pid) batch)" by blast
    have "results' = results @ (commit_data pid v # new)
       \<and> db s' = (db s)\<lparr>commits := commits (db s) @ (commit_data pid v # new)\<rparr>
       \<and> subseq (commit_data pid v # new) (map (commit_data pid) (v # batch))"
      using n a by simp
    then show ?thesis by blast
  qed
qed

lemma store_batch_no_fault:
  assumes "\<forall>c w. fst (dbFault env c w) = None"
  shows "\<exists>s'. store_batch env pid batch results s = (results @ map (commit_data pid) batch, s')
           \<and> db s' = (db s)\<lparr>commits := commits (db s) @ map (commit_data pid) batch\<rparr>"
proof (induction batch arbitrary: results s)
  case Nil
  then show ?case by simp
next
  case (Cons v batch)
  obtain s1 where c: "db_commit_create env (commit_data pid v) s = (Inr (commit_data pid v), s1)"
    and d: "db s1 = (db s)\<lparr>commits := commits (db s) @ [commit_data pid v]\<rparr>"
    using db_commit_create_no_fault [OF assms] by blast
  from Cons.IH [of "results @ [commit_data pid v]" s1] c d show ?case by auto
qed

lemma slice_batch: "slice xs i (i + n) @ drop (i + n) xs = drop i xs"
  by (simp add: slice_def add.commute [of i n] flip: drop_drop)

lemma store_batches_result:
  "store_batches env pid valid i results s = (results', s') \<Longrightarrow>
     \<exists>new. results' = results @ new \<and> db s' = (db s)\<lparr>commits := commits (db s) @ new\<rparr>
       \<and> subseq new (map (commit_data pid) (drop i valid))"
proof (induction env pid valid i results s rule: store_batches.induct)
  case (1 env pid valid i results s)
  show ?case
  proof (cases "i < length valid")
    case False
    with "1.prems" show ?thesis by (simp add: store_batches.simps [of env pid valid i])
  next
    case True
    let ?batch = "slice valid i (i + batchSize)"
    obtain res1 s1 where b: "store_batch env pid ?batch results s = (res1, s1)"
      by (cases "store_batch env pid ?batch results s")
    from store_batch_result [OF b] obtain new1 where
      n1: "res1 = results @ new1" "db s1 = (db s)\<lparr>commits := commits (db s) @ new1\<rparr>"
        "subseq new1 (map (commit_data pid) ?batch)" by blast
    have rest: "store_batches env pid valid (i + batchSize) res1 (setTimeout env 500 s1)
        = (results', s')"
      using "1.prems" True b by (simp add: store_batches.simps [of env pid valid i] Let_def)
    from "1.IH" [OF True refl b [symmetric] rest] obtain new2 where
      n2: "results' = res1 @ new2"
        "db s' = (db (setTimeout env 500 s1))\<lparr>commits := commits (db (setTimeout env 500 s1)) @ new2\<rparr>"
        "subseq new2 (map (commit_data pid) (drop (i + batchSize) valid))" by blast
    have "subseq (new1 @ new2)
        (map (commit_data pid) ?batch @ map (commit_data pid) (drop (i + batchSize) valid))"
      using n1(3) n2(3) by (rule list_emb_append_mono)
    then have "subseq (new1 @ new2) (map (commit_data pid) (drop i valid))"
      by (simp add: slice_batch flip: map_append)
    moreover have "results' = results @ (new1 @ new2)" using n1 n2 by simp
    moreover have "db s' = (db s)\<lparr>commits := commits (db s) @ (new1 @ new2)\<rparr>"
      using n1 n2 by simp
    ultimately show ?thesis by blast
  qed
qed

lemma store_batches_no_fault:
  "\<forall>c w. fst (dbFault env c w) = None \<Longrightarrow>
   \<exists>s'. store_batches env pid valid i results s
             = (results @ map (commit_data pid) (drop i valid), s')
           \<and> db s' = (db s)\<lparr>commits := commits (db s) @ map (commit_data pid) (drop i valid)\<rparr>"
proof (induction env pid valid i results s rule: store_batches.induct)
  case (1 env pid valid i results s)
  show ?case
  proof (cases "i < length valid")
    case False
    then show ?thesis by (simp add: store_batches.simps [of env pid valid i])
  next
    case True
    let ?batch = "slice valid i (i + batchSize)"
    let ?res1 = "results @ map (commit_data pid) ?batch"
    obtain s1 where b: "store_batch env pid ?batch results s = (?res1, s1)"
      and d1: "db s1 = (db s)\<lparr>commits := commits (db s) @ map (commit_data pid) ?batch\<rparr>"
      using store_batch_no_fault [OF "1.prems"] by blast
    from "1.IH" [OF True refl b [symmetric] "1.prems"] obtain s' where
      r: "store_batches env pid valid (i + batchSize) ?res1 (setTimeout env 500 s1)
          = (?res1 @ map (commit_data pid) (drop (i + batchSize) valid), s')"
      and d: "db s' = (db (setTimeout env 500 s1))\<lparr>commits := commits (db (setTimeout env 500 s1))
          @ map (commit_data pid) (drop (i + batchSize) valid)\<rparr>"
      by blast
    have j: "map (commit_data pid) ?batch @ map (commit_data pid) (drop (i + batchSize) valid)
        = map (commit_data pid) (drop i valid)"
      by (simp add: slice_batch flip: map_append)
    have "store_batches env pid valid i results s
        = (results @ map (commit_data pid) (drop i valid), s')"
      using True b r j by (simp add: store_batches.simps [of env pid valid i] Let_def)
    moreover have "db s' = (db s)\<lparr>commits := commits (db s) @ map (commit_data pid) (drop i valid)\<rparr>"
      using d d1 j by simp
    ultimately show ?thesis by blast
  qed
qed

section \<open>The fan-out of pollCommits\<close>

lemma fetch_and_summarize_fetch_fails:
  assumes "fst (axios_get env (url @ ''/commit/'' @ hash @ ''.diff'') (world s)) = Inl e"
  shows "\<exists>s'. fetch_and_summarize env url hash s = (Inr ''Error generating summary'', s')"
  using assms
  by (cases "axios_get env (url @ ''/commit/'' @ hash @ ''.diff'') (world s)")
    (simp add: fetch_and_summarize_def try_catch_def await_def call_def resolve_def)

lemma fetch_and_summarize_summary_fails:
  assumes "axios_get env (url @ ''/commit/'' @ hash @ ''.diff'') (world s) = (Inr d, w)"
    and "fst (generateContent env [commit_prompt d] w) = Inl e"
  shows "\<exists>s'. fetch_and_summarize env url hash s = (Inr ''Error generating summary'', s')"
  using assms
  by (cases "generateContent env [commit_prompt d] w")
    (simp add: fetch_and_summarize_def try_catch_def await_def call_def resolve_def throw_def
      aiSummarizeCommit_def)

lemma summarize_task_of_attempt:
  "fetch_and_summarize env url (commitHash commit) s = (Inr tx, s') \<Longrightarrow>
   limit (summarize_task env url commit) s = (Inr (Some (with_summary commit tx)), s')"
  by (simp add: limit_def summarize_task_def summariesCommit_def withRetry_success try_catch_def
      await_def untraced_def resolve_def)

text \<open>
  C10. summariesCommit never rejects, whatever the diff fetch and the summariser do: it
  returns a text after one attempt and no wait, the sentinel when the fetch is
  rate-limited. So no task of the fan-out of pollCommits yields \<^verbatim>\<open>null\<close>, and every
  submitted commit is among the valid summaries.
\<close>

theorem summariesCommit_never_rejects:
  "(\<exists>text s'. summariesCommit env url hash s = (Inr text, [Attempt], s'))
   \<and> (rate_limited (fst (axios_get env (url @ ''/commit/'' @ hash @ ''.diff'') (world s)))
        \<longrightarrow> (\<exists>s'. summariesCommit env url hash s
                    = (Inr ''Error generating summary'', [Attempt], s')))
   \<and> (\<exists>text s'. limit (summarize_task env url commit) s
          = (Inr (Some (with_summary commit text)), s'))
   \<and> (\<exists>texts s'. length texts = length cs
          \<and> promise_all (map (\<lambda>commit. limit (summarize_task env url commit)) cs) s
              = (Inr (map (\<lambda>(commit, text). Some (with_summary commit text)) (zip cs texts)), s'))"
proof -
  have "\<exists>s'. summariesCommit env url hash s = (Inr ''Error generating summary'', [Attempt], s')"
    if "rate_limited (fst (axios_get env (url @ ''/commit/'' @ hash @ ''.diff'') (world s)))"
  proof -
    from that obtain e
      where "fst (axios_get env (url @ ''/commit/'' @ hash @ ''.diff'') (world s)) = Inl e"
      by (auto simp: rate_limited_def split: sum.splits)
    from fetch_and_summarize_fetch_fails [OF this] show ?thesis
      unfolding summariesCommit_def by (blast intro: withRetry_success)
  qed
  moreover have "\<exists>text s'. limit (summarize_task env url commit) s
      = (Inr (Some (with_summary commit text)), s')"
    using summarize_task_resolves [of env url commit s] by (simp add: limit_def)
  ultimately show ?thesis
    using summariesCommit_resolves [of env url hash s] fan_out_resolves [of cs env url s]
    by blast
qed

theorem summariesCommit_never_rejects_witness:
  "rate_limited (fst (axios_get github_env (repo_url @ ''/commit/'' @ ''c2'' @ ''.diff'') (world start)))
   \<and> (\<exists>s'. summariesCommit github_env repo_url ''c2'' start
              = (Inr ''Error generating summary'', [Attempt], s'))"
  using summariesCommit_never_rejects [where env = github_env and url = repo_url
      and hash = "''c2''" and s = start]
  by (simp add: github_env_def repo_url_def c2_diff_def rate_limited_def too_many_requests_def
      start_def)

lemmas github_defs = github_env_def flaky_env_def repo_url_def c2_diff_def fixed_summary_def
  listed_def listed_commit_def

section \<open>Two runs of pollCommits\<close>

lemma subseq_set: "subseq xs ys \<Longrightarrow> set xs \<subseteq> set ys"
  by (auto elim: list_emb_set)

lemma subseq_distinct: "subseq xs ys \<Longrightarrow> distinct ys \<Longrightarrow> distinct xs"
  using subseqs_distinctD [of xs ys] by (simp add: set_subseqs_eq)

lemma valid_summaries:
  "[v. Some v \<leftarrow> map (\<lambda>(commit, text). Some (with_summary commit text)) zs]
     = map (\<lambda>(commit, text). with_summary commit text) zs"
  by (induction zs) auto

lemma hashes_of_valid:
  "length texts = length cs \<Longrightarrow>
   map (\<lambda>v. commitHash (commit_data pid v))
     (map (\<lambda>(commit, text). with_summary commit text) (zip cs texts)) = map commitHash cs"
  by (induction cs texts rule: list_induct2') (auto simp: commit_data_def with_summary_def)

text \<open>The commits that a run finds unprocessed.\<close>

lemma pollCommits_effect:
  assumes f: "fetchProjectGithubUrl env pid s = (Inr url, sa)"
    and g: "getCommitHashes env url sa = (Inr listing, tr, sb)"
    and run: "pollCommits env pid s = (r, s1)"
  shows "\<exists>new. db s1 = (db s)\<lparr>commits := commits (db s) @ new\<rparr>
           \<and> subseq (map commitHash new)
               (map commitHash
                  (filter (\<lambda>c. commitHash c \<notin> set (stored_hashes pid (db s))) listing))
           \<and> (\<forall>c \<in> set new. projectId c = pid)
           \<and> (\<forall>rows. r = Inr rows \<longrightarrow> rows = new)"
proof -
  let ?un = "filter (\<lambda>c. commitHash c \<notin> set (stored_hashes pid (db s))) listing"
  have da: "db sa = db s"
    using keeps_db_fetchProjectGithubUrl f by (rule keeps_dbD)
  have g': "untraced (getCommitHashes env url) sa = (Inr listing, sb)"
    using g by (simp add: untraced_def)
  have db': "db sb = db s"
    using keeps_dbD [OF keeps_db_getCommitHashes g'] da by simp
  obtain r3 sc where fl: "filterUnprocessedCommits env pid listing sb = (r3, sc)"
    by (cases "filterUnprocessedCommits env pid listing sb")
  have dc: "db sc = db s"
    using filterUnprocessedCommits_result(1) [OF fl] db' by simp
  have unfold: "pollCommits env pid s =
      (case r3 of
         Inl e \<Rightarrow> (Inl e, sc)
       | Inr u \<Rightarrow>
           if u = [] then (Inr [], sc)
           else (case promise_all (map (\<lambda>commit. limit (summarize_task env url commit)) u) sc of
                   (Inl e, sd) \<Rightarrow> (Inl e, sd)
                 | (Inr rs, sd) \<Rightarrow>
                     (case store_batches env pid [v. Some v \<leftarrow> rs] 0 [] sd of
                        (results, s') \<Rightarrow> (Inr results, s'))))"
    using f g' fl
    by (auto simp: pollCommits_def try_catch_def await_def throw_def resolve_def Let_def
        split: sum.splits prod.splits)
  show ?thesis
  proof (cases r3)
    case (Inl e)
    with unfold run dc have "db s1 = (db s)\<lparr>commits := commits (db s) @ []\<rparr>" "r = Inl e"
      by auto
    then show ?thesis by (intro exI [of _ "[]"]) simp
  next
    case (Inr u)
    have u: "u = ?un"
      using filterUnprocessedCommits_result(2) [OF fl Inr] db' by simp
    show ?thesis
    proof (cases "u = []")
      case True
      with unfold run dc Inr have "db s1 = (db s)\<lparr>commits := commits (db s) @ []\<rparr>" "r = Inr []"
        by auto
      then show ?thesis by (intro exI [of _ "[]"]) simp
    next
      case False
      obtain texts sd where len: "length texts = length u"
        and fan: "promise_all (map (\<lambda>commit. limit (summarize_task env url commit)) u) sc =
          (Inr (map (\<lambda>(commit, text). Some (with_summary commit text)) (zip u texts)), sd)"
        using fan_out_resolves [of u env url sc] by blast
      have "keeps_db (promise_all (map (\<lambda>commit. limit (summarize_task env url commit)) u))"
        by (rule keeps_db_promise_all) (auto simp: limit_def keeps_db_summarize_task)
      from keeps_dbD [OF this fan] have dd: "db sd = db s" using dc by simp
      let ?valid = "map (\<lambda>(commit, text). with_summary commit text) (zip u texts)"
      obtain results s' where st: "store_batches env pid ?valid 0 [] sd = (results, s')"
        by (cases "store_batches env pid ?valid 0 [] sd")
      have res: "r = Inr results" "s1 = s'"
        using unfold run Inr False fan st valid_summaries [of "zip u texts"] by simp_all
      from store_batches_result [OF st] obtain new where
        n: "results = new" "db s' = (db sd)\<lparr>commits := commits (db sd) @ new\<rparr>"
          "subseq new (map (commit_data pid) ?valid)" by auto
      have "subseq (map commitHash new) (map commitHash (map (commit_data pid) ?valid))"
        using n(3) by (rule subseq_map)
      then have 1: "subseq (map commitHash new) (map commitHash ?un)"
        using hashes_of_valid [OF len, of pid] u by (simp add: comp_def)
      have 2: "\<forall>c \<in> set new. projectId c = pid"
        using subseq_set [OF n(3)] by (auto simp: commit_data_def)
      show ?thesis
        using 1 2 n res dd by (intro exI [of _ new]) simp
    qed
  qed
qed

lemma stored_hashes_append:
  "\<forall>c \<in> set new. projectId c = pid \<Longrightarrow>
   stored_hashes pid (d\<lparr>commits := commits d @ new\<rparr>) = stored_hashes pid d @ map commitHash new"
  by (simp add: stored_hashes_def filter_id_conv)

text \<open>
  C3, as amended. Two runs of pollCommits in succession that obtain the same listing:
  if the first run stored every commit that it found unprocessed, the second run finds
  no unprocessed commit, creates no row and leaves the data store as it is. The filter
  of a run keeps exactly the listed commits whose hash is not stored for the project.
  If neither the hashes stored for the project nor the hashes of the listing repeat
  before the first run, the hashes stored for the project do not repeat after either run.
\<close>

theorem pollCommits_idempotent:
  assumes f1: "fetchProjectGithubUrl env pid s0 = (Inr url, sa)"
    and g1: "getCommitHashes env url sa = (Inr listing, tr, sb)"
    and run1: "pollCommits env pid s0 = (Inr created, s1)"
    and f2: "fetchProjectGithubUrl env pid s1 = (Inr url', sa')"
    and g2: "getCommitHashes env url' sa' = (Inr listing, tr', sb')"
    and run2: "pollCommits env pid s1 = (r2, s2)"
  shows "(length created
            = length (filter (\<lambda>c. commitHash c \<notin> set (stored_hashes pid (db s0))) listing)
          \<longrightarrow> filter (\<lambda>c. commitHash c \<notin> set (stored_hashes pid (db s1))) listing = []
              \<and> db s2 = db s1 \<and> (\<forall>rows. r2 = Inr rows \<longrightarrow> rows = []))
       \<and> (\<forall>u sc. filterUnprocessedCommits env pid listing sb' = (Inr u, sc)
            \<longrightarrow> u = filter (\<lambda>c. commitHash c \<notin> set (stored_hashes pid (db s1))) listing)
       \<and> (distinct (stored_hashes pid (db s0)) \<and> distinct (map commitHash listing)
            \<longrightarrow> distinct (stored_hashes pid (db s1)) \<and> distinct (stored_hashes pid (db s2)))"
proof -
  let ?un1 = "filter (\<lambda>c. commitHash c \<notin> set (stored_hashes pid (db s0))) listing"
  let ?un2 = "filter (\<lambda>c. commitHash c \<notin> set (stored_hashes pid (db s1))) listing"
  from pollCommits_effect [OF f1 g1 run1] obtain new1 where
    e1: "db s1 = (db s0)\<lparr>commits := commits (db s0) @ new1\<rparr>"
      "subseq (map commitHash new1) (map commitHash ?un1)"
      "\<forall>c \<in> set new1. projectId c = pid" "created = new1" by blast
  from pollCommits_effect [OF f2 g2 run2] obtain new2 where
    e2: "db s2 = (db s1)\<lparr>commits := commits (db s1) @ new2\<rparr>"
      "subseq (map commitHash new2) (map commitHash ?un2)"
      "\<forall>c \<in> set new2. projectId c = pid" "\<forall>rows. r2 = Inr rows \<longrightarrow> rows = new2" by blast
  have h1: "stored_hashes pid (db s1) = stored_hashes pid (db s0) @ map commitHash new1"
    using e1(1,3) by (simp add: stored_hashes_append)
  have h2: "stored_hashes pid (db s2) = stored_hashes pid (db s1) @ map commitHash new2"
    using e2(1,3) by (simp add: stored_hashes_append)
  have first: "?un2 = [] \<and> db s2 = db s1 \<and> (\<forall>rows. r2 = Inr rows \<longrightarrow> rows = [])"
    if all: "length created = length ?un1"
  proof -
    have "map commitHash new1 = map commitHash ?un1"
      using e1(2) all e1(4) by (intro subseq_same_length) simp_all
    then have "set (map commitHash listing) \<subseteq> set (stored_hashes pid (db s1))"
      unfolding h1 by auto
    then have un2: "?un2 = []" by (auto simp: filter_empty_conv)
    with e2(2) have "new2 = []" by (auto dest: list_emb_Nil2)
    with e2 un2 show ?thesis by simp
  qed
  have second: "u = ?un2" if "filterUnprocessedCommits env pid listing sb' = (Inr u, sc)" for u sc
  proof -
    have "db sa' = db s1"
      using keeps_db_fetchProjectGithubUrl f2 by (rule keeps_dbD)
    moreover have "untraced (getCommitHashes env url') sa' = (Inr listing, sb')"
      using g2 by (simp add: untraced_def)
    from keeps_dbD [OF keeps_db_getCommitHashes this] have "db sb' = db sa'" .
    ultimately show ?thesis
      using filterUnprocessedCommits_result(2) [OF that refl] by simp
  qed
  have third: "distinct (stored_hashes pid (db s1)) \<and> distinct (stored_hashes pid (db s2))"
    if d: "distinct (stored_hashes pid (db s0)) \<and> distinct (map commitHash listing)"
  proof -
    have step: "distinct (stored_hashes pid d @ map commitHash new)"
      if "distinct (stored_hashes pid d)"
        and "subseq (map commitHash new)
               (map commitHash (filter (\<lambda>c. commitHash c \<notin> set (stored_hashes pid d)) listing))"
      for d new
    proof -
      have "distinct (map commitHash (filter (\<lambda>c. commitHash c \<notin> set (stored_hashes pid d)) listing))"
        using d by (simp add: distinct_map_filter)
      with that(2) have "distinct (map commitHash new)" by (rule subseq_distinct)
      moreover have "set (map commitHash new) \<inter> set (stored_hashes pid d) = {}"
        using subseq_set [OF that(2)] by auto
      ultimately show ?thesis using that(1) by auto
    qed
    have d1: "distinct (stored_hashes pid (db s1))"
      unfolding h1 using d e1(2) by (intro step) simp_all
    have "distinct (stored_hashes pid (db s2))"
      unfolding h2 using d1 e2(2) by (intro step) simp_all
    with d1 show ?thesis by simp
  qed
  from first second third show ?thesis by blast
qed

lemmas repo_defs = repo_state_def listing_c1_c2_def rows_c1_c2_def outage_env_def

lemma example_fetchProject:
  "fetchProjectGithubUrl github_env ''p1'' (repo_state w cs) = (Inr repo_url, repo_state w cs)"
  by (simp add: fetchProjectGithubUrl_def db_project_findUnique_def prisma_def await_def
      resolve_def github_defs repo_defs example_defs)

lemma example_getCommitHashes:
  "getCommitHashes github_env repo_url (repo_state w cs)
     = (Inr listing_c1_c2, [Attempt], repo_state (Suc w) cs)"
  by (simp add: getCommitHashes_def withRetry.simps slice_last2_def await_def resolve_def
      throw_def to_Response_def or_empty_def author_time_def Let_def
      github_defs repo_defs example_defs)

lemmas pollCommits_eval = pollCommits_def fetchProjectGithubUrl_def db_project_findUnique_def
  prisma_def getCommitHashes_def withRetry.simps slice_last2_def to_Response_def or_empty_def
  author_time_def filterUnprocessedCommits_def db_commit_findMany_def summarize_task_def
  summariesCommit_def fetch_and_summarize_def aiSummarizeCommit_def limit_def untraced_def
  store_batches.simps slice_def batchSize_def db_commit_create_def commit_data_def
  with_summary_def await_def resolve_def throw_def try_catch_def Let_def

lemma example_run1:
  "pollCommits github_env ''p1'' (repo_state 0 []) = (Inr rows_c1_c2, repo_state 4 rows_c1_c2)"
  by (simp add: pollCommits_eval github_defs repo_defs example_defs)

lemma example_run2:
  "pollCommits github_env ''p1'' (repo_state 4 rows_c1_c2) = (Inr [], repo_state 5 rows_c1_c2)"
  by (simp add: pollCommits_eval github_defs repo_defs example_defs del: set_filter set_map)

theorem pollCommits_idempotent_witness:
  "length rows_c1_c2
     = length (filter (\<lambda>c. commitHash c \<notin> set (stored_hashes ''p1'' (db (repo_state 0 []))))
                 listing_c1_c2)
   \<and> distinct (stored_hashes ''p1'' (db (repo_state 0 [])))
   \<and> distinct (map commitHash listing_c1_c2)
   \<and> filter (\<lambda>c. commitHash c \<notin> set (stored_hashes ''p1'' (db (repo_state 4 rows_c1_c2))))
        listing_c1_c2 = []
   \<and> db (repo_state 5 rows_c1_c2) = db (repo_state 4 rows_c1_c2)
   \<and> distinct (stored_hashes ''p1'' (db (repo_state 5 rows_c1_c2)))"
  using pollCommits_idempotent [OF example_fetchProject example_getCommitHashes example_run1
      example_fetchProject example_getCommitHashes example_run2]
  by (simp add: stored_hashes_def repo_defs)

text \<open>
  C3 as stated fails: the listing is the same in both runs, the storage layer rejects the
  creations of the first run, and the second run creates two rows.
\<close>

theorem pollCommits_idempotent_counterexample:
  "getCommitHashes outage_env repo_url (repo_state 0 [])
     = (Inr listing_c1_c2, [Attempt], repo_state 1 [])
   \<and> pollCommits outage_env ''p1'' (repo_state 0 []) = (Inr [], repo_state 4 [])
   \<and> getCommitHashes outage_env repo_url (repo_state 4 [])
     = (Inr listing_c1_c2, [Attempt], repo_state 5 [])
   \<and> pollCommits outage_env ''p1'' (repo_state 4 []) = (Inr rows_c1_c2, repo_state 8 rows_c1_c2)
   \<and> length (commits (db (repo_state 8 rows_c1_c2))) \<noteq> length (commits (db (repo_state 4 [])))"
  by (simp add: pollCommits_eval github_defs repo_defs example_defs)

section \<open>Failures in the fan-out\<close>

lemma filterUnprocessedCommits_no_fault:
  assumes "\<forall>c w. fst (dbFault env c w) = None"
  shows "\<exists>s'. filterUnprocessedCommits env pid listing s =
           (Inr (filter (\<lambda>c. commitHash c \<notin> set (stored_hashes pid (db s))) listing), s')
         \<and> db s' = db s"
proof -
  obtain o' w' where f: "dbFault env Commit_findMany (world s) = (o', w')"
    by (cases "dbFault env Commit_findMany (world s)")
  then have "o' = None" using assms by (metis fst_conv)
  with f show ?thesis
    by (simp add: filterUnprocessedCommits_def db_commit_findMany_def prisma_def await_def
        resolve_def stored_hashes_def Let_def)
qed

lemma valid_of_all: "[v. Some v \<leftarrow> map (\<lambda>c. Some (f c)) xs] = map f xs"
  by (induction xs) auto

text \<open>
  A run of pollCommits in which the collaborators answer by the request alone and the
  storage layer accepts every call: a row is stored for every unprocessed commit.
\<close>

lemma pollCommits_stores_all:
  assumes f: "fetchProjectGithubUrl env pid s = (Inr url, sa)"
    and g: "getCommitHashes env url sa = (Inr listing, tr, sb)"
    and F: "\<forall>u w. fst (axios_get env u w) = F u"
    and G: "\<forall>ps w. fst (generateContent env ps w) = G ps"
    and ok: "\<forall>c w. fst (dbFault env c w) = None"
  shows "\<exists>s'. pollCommits env pid s =
      (Inr (map (\<lambda>c. commit_data pid (with_summary c (own_summary F G url (commitHash c))))
              (filter (\<lambda>c. commitHash c \<notin> set (stored_hashes pid (db s))) listing)), s')
    \<and> db s' = (db s)\<lparr>commits := commits (db s) @
        map (\<lambda>c. commit_data pid (with_summary c (own_summary F G url (commitHash c))))
          (filter (\<lambda>c. commitHash c \<notin> set (stored_hashes pid (db s))) listing)\<rparr>"
proof -
  let ?un = "filter (\<lambda>c. commitHash c \<notin> set (stored_hashes pid (db s))) listing"
  let ?sum = "\<lambda>c. with_summary c (own_summary F G url (commitHash c))"
  have da: "db sa = db s"
    using keeps_db_fetchProjectGithubUrl f by (rule keeps_dbD)
  have g': "untraced (getCommitHashes env url) sa = (Inr listing, sb)"
    using g by (simp add: untraced_def)
  have db': "db sb = db s"
    using keeps_dbD [OF keeps_db_getCommitHashes g'] da by simp
  obtain sc where fl: "filterUnprocessedCommits env pid listing sb = (Inr ?un, sc)"
    and dc: "db sc = db s"
    using filterUnprocessedCommits_no_fault [OF ok, of pid listing sb] db' by auto
  obtain sd where fan: "promise_all (map (\<lambda>commit. limit (summarize_task env url commit)) ?un) sc
      = (Inr (map (\<lambda>c. Some (?sum c)) ?un), sd)"
    using fan_out_stateless [OF F G, of url ?un sc] by blast
  have "keeps_db (promise_all (map (\<lambda>commit. limit (summarize_task env url commit)) ?un))"
    by (rule keeps_db_promise_all) (auto simp: limit_def keeps_db_summarize_task)
  from keeps_dbD [OF this fan] have dd: "db sd = db s" using dc by simp
  obtain s' where st: "store_batches env pid (map ?sum ?un) 0 [] sd
        = (map (commit_data pid) (map ?sum ?un), s')"
    and ds: "db s' = (db sd)\<lparr>commits := commits (db sd) @ map (commit_data pid) (map ?sum ?un)\<rparr>"
    using store_batches_no_fault [OF ok, of pid "map ?sum ?un" 0 "[]" sd] by auto
  have run: "pollCommits env pid s =
      (if ?un = [] then (Inr [], sc) else (Inr (map (commit_data pid) (map ?sum ?un)), s'))"
    using f g' fl fan st valid_of_all [of ?sum ?un]
    by (simp add: pollCommits_def try_catch_def await_def throw_def resolve_def Let_def)
  show ?thesis
  proof (cases "?un = []")
    case True
    with run dc show ?thesis by simp
  next
    case False
    with run ds dd show ?thesis by (simp add: comp_def)
  qed
qed

text \<open>
  C4. A failure of the diff fetch or of the summariser for a commit is caught in the task
  of that commit and gives the sentinel summary. The fan-out never rejects and has one
  entry for each submitted commit; when the collaborators answer by the request alone,
  the summary of each commit is \<open>own_summary\<close> of that commit, whatever happens to the
  others. When the storage layer accepts the calls, every valid summary becomes a row.
  So a run of pollCommits, when the collaborators answer by the request alone and the
  storage layer accepts the calls, returns and stores one row for every unprocessed
  commit of the listing, in the order of the listing: the row has the fields of the
  commit, the project and the summary of that commit alone, which is the sentinel when
  its diff cannot be fetched, is empty or cannot be summarised, and the text of the
  summariser otherwise.
\<close>

theorem fan_out_isolates_failures:
  "(fst (axios_get env (url @ ''/commit/'' @ commitHash commit @ ''.diff'') (world s)) = Inl e
      \<longrightarrow> fst (limit (summarize_task env url commit) s)
            = Inr (Some (with_summary commit ''Error generating summary'')))
   \<and> (axios_get env (url @ ''/commit/'' @ commitHash commit @ ''.diff'') (world s) = (Inr d, w)
        \<and> fst (generateContent env [commit_prompt d] w) = Inl e'
      \<longrightarrow> fst (limit (summarize_task env url commit) s)
            = Inr (Some (with_summary commit ''Error generating summary'')))
   \<and> (\<exists>texts. length texts = length cs
        \<and> fst (promise_all (map (\<lambda>commit. limit (summarize_task env url commit)) cs) s0)
            = Inr (map (\<lambda>(commit, text). Some (with_summary commit text)) (zip cs texts)))
   \<and> ((\<forall>u w. fst (axios_get env u w) = F u) \<and> (\<forall>ps w. fst (generateContent env ps w) = G ps)
      \<longrightarrow> fst (promise_all (map (\<lambda>commit. limit (summarize_task env url commit)) cs) s0)
            = Inr (map (\<lambda>commit. Some (with_summary commit
                                          (own_summary F G url (commitHash commit)))) cs))
   \<and> ((\<forall>c w. fst (dbFault env c w) = None)
      \<longrightarrow> fst (store_batches env pid valid 0 [] s1) = map (commit_data pid) valid
          \<and> commits (db (snd (store_batches env pid valid 0 [] s1)))
              = commits (db s1) @ map (commit_data pid) valid)
   \<and> (fetchProjectGithubUrl env pid s2 = (Inr url, sa)
        \<and> getCommitHashes env url sa = (Inr listing, tr, sb)
        \<and> (\<forall>u w. fst (axios_get env u w) = F u)
        \<and> (\<forall>ps w. fst (generateContent env ps w) = G ps)
        \<and> (\<forall>c w. fst (dbFault env c w) = None)
      \<longrightarrow> (let rows =
                 map (\<lambda>c. \<lparr>commitHash = commitHash c, commitMessage = commitMessage c,
                           commitAuthorName = commitAuthorName c,
                           commitAuthorAvatar = commitAuthorAvatar c,
                           commitDate = commitDate c,
                           summary =
                             (case F (url @ ''/commit/'' @ commitHash c @ ''.diff'') of
                                Inl e \<Rightarrow> ''Error generating summary''
                              | Inr d \<Rightarrow>
                                  if d = [] then ''Error generating summary''
                                  else (case G [commit_prompt d] of
                                          Inl e \<Rightarrow> ''Error generating summary''
                                        | Inr text \<Rightarrow>
                                            if text = [] then ''No summary available''
                                            else text)),
                           projectId = pid\<rparr>)
                   (filter (\<lambda>c. commitHash c \<notin> set (stored_hashes pid (db s2))) listing)
            in fst (pollCommits env pid s2) = Inr rows
             \<and> db (snd (pollCommits env pid s2))
                 = (db s2)\<lparr>commits := commits (db s2) @ rows\<rparr>))"
proof (intro conjI impI)
  assume "fst (axios_get env (url @ ''/commit/'' @ commitHash commit @ ''.diff'') (world s)) = Inl e"
  from fetch_and_summarize_fetch_fails [OF this]
  show "fst (limit (summarize_task env url commit) s)
      = Inr (Some (with_summary commit ''Error generating summary''))"
    by (auto dest: summarize_task_of_attempt)
next
  assume "axios_get env (url @ ''/commit/'' @ commitHash commit @ ''.diff'') (world s) = (Inr d, w)
      \<and> fst (generateContent env [commit_prompt d] w) = Inl e'"
  then have a: "axios_get env (url @ ''/commit/'' @ commitHash commit @ ''.diff'') (world s) = (Inr d, w)"
    and b: "fst (generateContent env [commit_prompt d] w) = Inl e'" by simp_all
  from fetch_and_summarize_summary_fails [OF a b]
  obtain s' where "fetch_and_summarize env url (commitHash commit) s
      = (Inr ''Error generating summary'', s')" by blast
  then show "fst (limit (summarize_task env url commit) s)
      = Inr (Some (with_summary commit ''Error generating summary''))"
    by (auto dest: summarize_task_of_attempt)
next
  show "\<exists>texts. length texts = length cs
        \<and> fst (promise_all (map (\<lambda>commit. limit (summarize_task env url commit)) cs) s0)
            = Inr (map (\<lambda>(commit, text). Some (with_summary commit text)) (zip cs texts))"
    using fan_out_resolves [of cs env url s0] by auto
next
  assume "(\<forall>u w. fst (axios_get env u w) = F u) \<and> (\<forall>ps w. fst (generateContent env ps w) = G ps)"
  then show "fst (promise_all (map (\<lambda>commit. limit (summarize_task env url commit)) cs) s0)
            = Inr (map (\<lambda>commit. Some (with_summary commit
                                          (own_summary F G url (commitHash commit)))) cs)"
    using fan_out_stateless [of env F G url cs s0] by auto
next
  assume a: "\<forall>c w. fst (dbFault env c w) = None"
  from store_batches_no_fault [OF a, of pid valid 0 "[]" s1]
  show "fst (store_batches env pid valid 0 [] s1) = map (commit_data pid) valid"
    by auto
  from store_batches_no_fault [OF a, of pid valid 0 "[]" s1]
  show "commits (db (snd (store_batches env pid valid 0 [] s1)))
              = commits (db s1) @ map (commit_data pid) valid"
    by auto
next
  assume a: "fetchProjectGithubUrl env pid s2 = (Inr url, sa)
        \<and> getCommitHashes env url sa = (Inr listing, tr, sb)
        \<and> (\<forall>u w. fst (axios_get env u w) = F u)
        \<and> (\<forall>ps w. fst (generateContent env ps w) = G ps)
        \<and> (\<forall>c w. fst (dbFault env c w) = None)"
  then have f: "fetchProjectGithubUrl env pid s2 = (Inr url, sa)"
    and g: "getCommitHashes env url sa = (Inr listing, tr, sb)"
    and F: "\<forall>u w. fst (axios_get env u w) = F u"
    and G: "\<forall>ps w. fst (generateContent env ps w) = G ps"
    and ok: "\<forall>c w. fst (dbFault env c w) = None"
    by blast+
  from pollCommits_stores_all [OF f g F G ok]
  show "let rows =
                 map (\<lambda>c. \<lparr>commitHash = commitHash c, commitMessage = commitMessage c,
                           commitAuthorName = commitAuthorName c,
                           commitAuthorAvatar = commitAuthorAvatar c,
                           commitDate = commitDate c,
                           summary =
                             (case F (url @ ''/commit/'' @ commitHash c @ ''.diff'') of
                                Inl e \<Rightarrow> ''Error generating summary''
                              | Inr d \<Rightarrow>
                                  if d = [] then ''Error generating summary''
                                  else (case G [commit_prompt d] of
                                          Inl e \<Rightarrow> ''Error generating summary''
                                        | Inr text \<Rightarrow>
                                            if text = [] then ''No summary available''
                                            else text)),
                           projectId = pid\<rparr>)
                   (filter (\<lambda>c. commitHash c \<notin> set (stored_hashes pid (db s2))) listing)
            in fst (pollCommits env pid s2) = Inr rows
             \<and> db (snd (pollCommits env pid s2))
                 = (db s2)\<lparr>commits := commits (db s2) @ rows\<rparr>"
    by (auto simp: Let_def commit_data_def with_summary_def own_summary_def)
qed

lemmas three_commits_defs = three_commits_env_def listing_c1_c2_c3_def rows_c1_c2_c3_def

lemma example_three_commits:
  "fetchProjectGithubUrl three_commits_env ''p1'' (repo_state 0 [])
     = (Inr repo_url, repo_state 0 [])"
  "getCommitHashes three_commits_env repo_url (repo_state 0 [])
     = (Inr listing_c1_c2_c3, [Attempt], repo_state 1 [])"
  by (simp_all add: fetchProjectGithubUrl_def db_project_findUnique_def prisma_def
      getCommitHashes_def withRetry.simps slice_last2_def await_def resolve_def
      throw_def to_Response_def or_empty_def author_time_def Let_def
      three_commits_defs github_defs repo_defs example_defs)

theorem fan_out_isolates_failures_witness:
  "fst (limit (summarize_task github_env repo_url (listed_commit ''c2'')) start)
      = Inr (Some (with_summary (listed_commit ''c2'') ''Error generating summary''))
   \<and> fst (limit (summarize_task flaky_env repo_url (listed_commit ''c1'')) start)
      = Inr (Some (with_summary (listed_commit ''c1'') ''Error generating summary''))
   \<and> fst (promise_all (map (\<lambda>commit. limit (summarize_task github_env repo_url commit))
             [listed_commit ''c1'', listed_commit ''c2'', listed_commit ''c3'']) start)
      = Inr [Some (with_summary (listed_commit ''c1'') ''Changed x''),
             Some (with_summary (listed_commit ''c2'') ''Error generating summary''),
             Some (with_summary (listed_commit ''c3'') ''Changed x'')]
   \<and> fst (store_batches github_env ''p1''
             [with_summary (listed_commit ''c1'') ''Changed x'',
              with_summary (listed_commit ''c2'') ''Error generating summary''] 0 [] start)
      = [commit_data ''p1'' (with_summary (listed_commit ''c1'') ''Changed x''),
         commit_data ''p1'' (with_summary (listed_commit ''c2'') ''Error generating summary'')]
   \<and> fst (pollCommits three_commits_env ''p1'' (repo_state 0 [])) = Inr rows_c1_c2_c3
   \<and> commits (db (snd (pollCommits three_commits_env ''p1'' (repo_state 0 [])))) = rows_c1_c2_c3
   \<and> map summary rows_c1_c2_c3 = [''Changed x'', ''Error generating summary'', ''Changed x'']"
proof -
  have a: "fst (limit (summarize_task github_env repo_url (listed_commit ''c2'')) start)
      = Inr (Some (with_summary (listed_commit ''c2'') ''Error generating summary''))
   \<and> fst (promise_all (map (\<lambda>commit. limit (summarize_task github_env repo_url commit))
             [listed_commit ''c1'', listed_commit ''c2'', listed_commit ''c3'']) start)
      = Inr [Some (with_summary (listed_commit ''c1'') ''Changed x''),
             Some (with_summary (listed_commit ''c2'') ''Error generating summary''),
             Some (with_summary (listed_commit ''c3'') ''Changed x'')]
   \<and> fst (store_batches github_env ''p1''
             [with_summary (listed_commit ''c1'') ''Changed x'',
              with_summary (listed_commit ''c2'') ''Error generating summary''] 0 [] start)
      = [commit_data ''p1'' (with_summary (listed_commit ''c1'') ''Changed x''),
         commit_data ''p1'' (with_summary (listed_commit ''c2'') ''Error generating summary'')]"
    using fan_out_isolates_failures [where env = github_env and url = repo_url
      and commit = "listed_commit ''c2''" and s = start and e = too_many_requests
      and F = c2_diff and G = fixed_summary and ?s0.0 = start
      and cs = "[listed_commit ''c1'', listed_commit ''c2'', listed_commit ''c3'']"
      and pid = "''p1''" and ?s1.0 = start
      and valid = "[with_summary (listed_commit ''c1'') ''Changed x'',
              with_summary (listed_commit ''c2'') ''Error generating summary'']"
      and d = "[]" and w = 0 and e' = unavailable and ?s2.0 = start and sa = start
      and listing = "[]" and tr = "[]" and sb = start]
    by (simp add: github_defs example_defs own_summary_def)
  have b: "fst (limit (summarize_task flaky_env repo_url (listed_commit ''c1'')) start)
      = Inr (Some (with_summary (listed_commit ''c1'') ''Error generating summary''))"
    using fan_out_isolates_failures [where env = flaky_env and url = repo_url
      and commit = "listed_commit ''c1''" and s = start and d = "''diff --git''" and w = 1
      and e' = unavailable and e = unavailable
      and F = c2_diff and G = fixed_summary and ?s0.0 = start and cs = "[]"
      and pid = "''p1''" and ?s1.0 = start and valid = "[]" and ?s2.0 = start and sa = start
      and listing = "[]" and tr = "[]" and sb = start]
    by (simp add: github_defs example_defs)
  have c: "fst (pollCommits three_commits_env ''p1'' (repo_state 0 [])) = Inr rows_c1_c2_c3
   \<and> commits (db (snd (pollCommits three_commits_env ''p1'' (repo_state 0 [])))) = rows_c1_c2_c3"
    using example_three_commits
      fan_out_isolates_failures [where env = three_commits_env and url = repo_url
      and commit = "listed_commit ''c2''" and s = start and e = too_many_requests
      and F = c2_diff and G = fixed_summary and ?s0.0 = start and cs = "[]"
      and pid = "''p1''" and ?s1.0 = start and valid = "[]"
      and d = "[]" and w = 0 and e' = unavailable and ?s2.0 = "repo_state 0 []"
      and sa = "repo_state 0 []" and listing = listing_c1_c2_c3 and tr = "[Attempt]"
      and sb = "repo_state 1 []", THEN conjunct2, THEN conjunct2, THEN conjunct2,
      THEN conjunct2, THEN conjunct2]
    by (simp add: three_commits_defs github_defs repo_defs example_defs stored_hashes_def Let_def)
  have d: "map summary rows_c1_c2_c3 = [''Changed x'', ''Error generating summary'', ''Changed x'']"
    by (simp add: rows_c1_c2_c3_def)
  from a b c d show ?thesis by simp
qed

section \<open>The retry loop of loadGithubRepo\<close>

lemma token_advice_rate_limit: "rate_limit_message token_advice"
  by (simp add: rate_limit_message_def token_advice_def)

lemma retry_success:
  "attempt \<le> n \<Longrightarrow> fn s = (Inr v, s') \<Longrightarrow> retry env fn n attempt s = (Inr (Some v), [Attempt], s')"
  by (simp add: retry.simps)

lemma retry_other_error:
  "attempt \<le> n \<Longrightarrow> fn s = (Inl e, s') \<Longrightarrow> message e = Some m \<Longrightarrow> \<not> rate_limit_message m \<Longrightarrow>
   retry env fn n attempt s = (Inl e, [Attempt], s')"
  by (simp add: retry.simps)

lemma retry_last:
  "fn s = (Inl e, s') \<Longrightarrow> retry env fn n n s = (Inl e, [Attempt], s')"
  by (simp add: retry.simps)

lemma retry_rate_limited:
  assumes "rate_limit_error (fst (fn s))" and "attempt < n"
  shows "retry env fn n attempt s =
    (case retry env fn n (Suc attempt)
            (after_wait env fn (min (1000 * 2 ^ attempt) 10000) s) of
       (r, tr, s'') \<Rightarrow> (r, Attempt # Sleep (min (1000 * 2 ^ attempt) 10000) # tr, s''))"
  using assms
  by (cases "fn s")
    (auto simp: retry.simps [of env fn n attempt s] rate_limit_error_def after_wait_def Let_def
      split: sum.splits option.splits)

lemma retry_trace:
  "retry env fn n attempt s = (r, tr, s') \<Longrightarrow> 1 \<le> attempt \<Longrightarrow>
     (\<forall>d. Sleep d \<in> set tr \<longrightarrow> d \<le> 10000 \<and> 2000 \<le> d) \<and> attempts tr \<le> Suc n - attempt"
proof (induction env fn n attempt s arbitrary: r tr s' rule: retry.induct)
  case (1 env fn n attempt s)
  show ?case
  proof (cases "attempt < n \<and> rate_limit_error (fst (fn s))")
    case True
    let ?w = "min (1000 * 2 ^ attempt) (10000::nat)"
    obtain e s1 m where f: "fn s = (Inl e, s1)" and m: "message e = Some m" "rate_limit_message m"
      using True by (cases "fn s") (auto simp: rate_limit_error_def split: sum.splits option.splits)
    obtain r1 tr1 s2 where rec: "retry env fn n (attempt + 1) (setTimeout env ?w s1) = (r1, tr1, s2)"
      by (metis prod_cases3)
    have ih: "(\<forall>d. Sleep d \<in> set tr1 \<longrightarrow> d \<le> 10000 \<and> 2000 \<le> d) \<and> attempts tr1 \<le> Suc n - (attempt + 1)"
      using "1.IH" [OF _ f [symmetric] refl _ m(1) m(2) refl rec] True by simp
    have "tr = Attempt # Sleep ?w # tr1"
      using "1.prems" True f m rec by (simp add: retry.simps [of env fn n attempt s] Let_def)
    moreover have "2000 \<le> ?w"
    proof -
      have "(2::nat) ^ 1 \<le> 2 ^ attempt"
        using "1.prems"(2) by (intro power_increasing) simp_all
      then show ?thesis by simp
    qed
    ultimately show ?thesis using ih True by (auto simp: attempts_def)
  next
    case False
    then have "tr = [Attempt] \<or> tr = []"
      using "1.prems"
      by (cases "fn s")
        (auto simp: retry.simps [of env fn n attempt s] rate_limit_error_def
          split: sum.splits option.splits if_splits)
    moreover have "tr = [Attempt] \<Longrightarrow> attempt \<le> n"
      using "1.prems" by (auto simp: retry.simps [of env fn n attempt s] split: if_splits)
    ultimately show ?thesis by (auto simp: attempts_def)
  qed
qed

text \<open>A rejection before the last attempt is not a rate-limit error.\<close>

lemma retry_rejection:
  "retry env fn n attempt s = (Inl e, tr, s') \<Longrightarrow> attempt \<le> n \<Longrightarrow>
     attempts tr = Suc n - attempt \<or> (\<exists>m. message e = Some m \<and> \<not> rate_limit_message m)"
proof (induction env fn n attempt s arbitrary: tr s' rule: retry.induct)
  case (1 env fn n attempt s)
  show ?case
  proof (cases "attempt < n \<and> rate_limit_error (fst (fn s))")
    case True
    let ?w = "min (1000 * 2 ^ attempt) (10000::nat)"
    obtain e1 s1 m where f: "fn s = (Inl e1, s1)" and m: "message e1 = Some m" "rate_limit_message m"
      using True by (cases "fn s") (auto simp: rate_limit_error_def split: sum.splits option.splits)
    obtain r1 tr1 s2 where rec: "retry env fn n (attempt + 1) (setTimeout env ?w s1) = (r1, tr1, s2)"
      by (metis prod_cases3)
    have eq: "r1 = Inl e" "tr = Attempt # Sleep ?w # tr1"
      using "1.prems" True f m rec by (simp_all add: retry.simps [of env fn n attempt s] Let_def)
    have "attempts tr1 = Suc n - (attempt + 1) \<or> (\<exists>m. message e = Some m \<and> \<not> rate_limit_message m)"
      using "1.IH" [OF _ f [symmetric] refl _ m(1) m(2) refl rec [unfolded eq(1)]] True by simp
    then show ?thesis using eq(2) True by (auto simp: attempts_def)
  next
    case False
    obtain r0 s1 where f: "fn s = (r0, s1)" by (cases "fn s")
    show ?thesis
    proof (cases "attempt = n")
      case True
      then have "tr = [Attempt]"
        using "1.prems" f retry_last [of fn s _ s1 env n] retry_success [of n n fn s _ s1 env]
        by (cases r0) auto
      with True show ?thesis by (simp add: attempts_def)
    next
      case neq: False
      then have "\<exists>m. message e = Some m \<and> \<not> rate_limit_message m"
        using "1.prems" f False
        by (cases r0)
          (auto simp: retry.simps [of env fn n attempt s] rate_limit_error_def TypeError_def
            Error_def rate_limit_message_def split: option.splits if_splits)
      then show ?thesis by simp
    qed
  qed
qed

lemma load_failed_TypeError: "load_failed TypeError = TypeError"
  by (simp add: load_failed_def TypeError_def Error_def rate_limit_message_def)

lemma load_failed_no_message: "message e = None \<Longrightarrow> load_failed e = TypeError"
  by (simp add: load_failed_def)

lemma load_failed_other:
  "message e = Some m \<Longrightarrow> \<not> rate_limit_message m \<Longrightarrow> load_failed e = e"
  by (simp add: load_failed_def)

lemma retry_not_rate_limit:
  assumes "attempt \<le> n" and "\<not> rate_limit_error (fst (fn s))"
  shows "retry env fn n attempt s =
    (case fst (fn s) of
       Inr v \<Rightarrow> Inr (Some v)
     | Inl e \<Rightarrow> if attempt = n then Inl e
                else (case message e of None \<Rightarrow> Inl TypeError | Some m \<Rightarrow> Inl e),
     [Attempt], snd (fn s))"
  using assms
  by (cases "fn s")
    (auto simp: retry.simps [of env fn n attempt s] rate_limit_error_def
      split: sum.splits option.splits)

lemma retry_step:
  assumes "rate_limit_error (fst (fn s))" and "attempt < n"
    and "retry env fn n (Suc attempt) (after_wait env fn (min (1000 * 2 ^ attempt) 10000) s)
           = (r, tr, t)"
  shows "retry env fn n attempt s = (r, Attempt # Sleep (min (1000 * 2 ^ attempt) 10000) # tr, t)"
  using assms retry_rate_limited [where fn = fn and s = s and attempt = attempt and n = n
      and env = env]
  by simp

text \<open>What loadGithubRepo makes of the outcome of \<open>retry\<close>.\<close>

lemma loadGithubRepo_of_retry:
  assumes "newLoader env url token = None"
    and "retry env (call (loader_load env url token)) 3 1 s = (r, tr, t)"
  shows "loadGithubRepo env url token s =
     (case r of Inl e \<Rightarrow> Inl (load_failed e) | Inr docs \<Rightarrow> Inr docs, tr, t)"
  using assms by (simp add: loadGithubRepo_def split: sum.splits)

text \<open>
  C6, as amended. When the construction of the loader throws, loadGithubRepo makes no
  attempt and throws at once: the error that recommends a token when the message of the
  thrown error is a rate-limit message. With a loader that was constructed it makes at
  most three attempts. After a rate-limit error of the first attempt it waits 2000 ms,
  after one of the second attempt 4000 ms (\<open>min (1000 * 2 ^ attempt) 10000\<close>, the attempts
  counted from 1), so that no wait exceeds 10000 ms. The run ends with the first attempt
  that does not fail with a rate-limit error: its documents are returned, its error with
  another message is thrown as it is (one without a message as a TypeError), and there
  is no further attempt. When the third attempt fails with a rate-limit error too, the
  error that recommends a token is thrown, and with a constructed loader it is thrown
  only after three attempts.
\<close>

theorem loadGithubRepo_backoff:
  "(newLoader env url token = Some e0
    \<longrightarrow> loadGithubRepo env url token s0 =
          (Inl (case message e0 of
                  None \<Rightarrow> TypeError
                | Some m \<Rightarrow> if rate_limit_message m then Error token_advice else e0),
           [], s0))
   \<and> (newLoader env url token = None
    \<longrightarrow> (let load = call (loader_load env url token);
             s1 = after_wait env load 2000 s0; s2 = after_wait env load 4000 s1;
             surfaced = (\<lambda>r. case r of
                             Inr docs \<Rightarrow> Inr (Some docs)
                           | Inl e \<Rightarrow> (case message e of None \<Rightarrow> Inl TypeError
                                                     | Some m \<Rightarrow> Inl e))
         in (\<not> rate_limit_error (fst (load s0))
             \<longrightarrow> loadGithubRepo env url token s0 =
                   (surfaced (fst (load s0)), [Attempt], snd (load s0)))
          \<and> (rate_limit_error (fst (load s0)) \<and> \<not> rate_limit_error (fst (load s1))
             \<longrightarrow> loadGithubRepo env url token s0 =
                   (surfaced (fst (load s1)), [Attempt, Sleep 2000, Attempt], snd (load s1)))
          \<and> (rate_limit_error (fst (load s0)) \<and> rate_limit_error (fst (load s1))
               \<and> \<not> rate_limit_error (fst (load s2))
             \<longrightarrow> loadGithubRepo env url token s0 =
                   (surfaced (fst (load s2)),
                    [Attempt, Sleep 2000, Attempt, Sleep 4000, Attempt], snd (load s2)))
          \<and> (rate_limit_error (fst (load s0)) \<and> rate_limit_error (fst (load s1))
               \<and> rate_limit_error (fst (load s2))
             \<longrightarrow> loadGithubRepo env url token s0 =
                   (Inl (Error token_advice),
                    [Attempt, Sleep 2000, Attempt, Sleep 4000, Attempt], snd (load s2)))
          \<and> (fst (loadGithubRepo env url token s0) = Inl (Error token_advice)
             \<longrightarrow> rate_limit_error (fst (load s0)) \<and> rate_limit_error (fst (load s1))
                 \<and> rate_limit_error (fst (load s2)))))
   \<and> (newLoader env url token = None
        \<and> call (loader_load env url token) s = (Inl e, s') \<and> message e = Some m
        \<and> \<not> rate_limit_message m
       \<longrightarrow> loadGithubRepo env url token s = (Inl e, [Attempt], s'))
   \<and> (k \<le> 3 \<and> fn s = (Inl e, s') \<and> message e = Some m \<and> \<not> rate_limit_message m
       \<longrightarrow> retry env fn 3 k s = (Inl e, [Attempt], s'))
   \<and> (loadGithubRepo env url token s = (r, tr, s'')
       \<longrightarrow> attempts tr \<le> 3 \<and> (\<forall>d. Sleep d \<in> set tr \<longrightarrow> 2000 \<le> d \<and> d \<le> 10000)
           \<and> (r = Inl (Error token_advice) \<and> newLoader env url token = None
              \<longrightarrow> attempts tr = 3))"
proof (intro conjI)
  show "newLoader env url token = Some e0
    \<longrightarrow> loadGithubRepo env url token s0 =
          (Inl (case message e0 of
                  None \<Rightarrow> TypeError
                | Some m \<Rightarrow> if rate_limit_message m then Error token_advice else e0),
           [], s0)"
    by (simp add: loadGithubRepo_def load_failed_def)
next
  let ?load = "call (loader_load env url token)"
  define s1 where "s1 = after_wait env ?load 2000 s0"
  define s2 where "s2 = after_wait env ?load 4000 s1"
  define surfaced :: "js_error + document list \<Rightarrow> js_error + document list option"
    where "surfaced = (\<lambda>r. case r of
                             Inr docs \<Rightarrow> Inr (Some docs)
                           | Inl e \<Rightarrow> (case message e of None \<Rightarrow> Inl TypeError
                                                     | Some m \<Rightarrow> Inl e))"
  have fin: "retry env ?load 3 a t =
      (case fst (?load t) of
         Inr v \<Rightarrow> Inr (Some v)
       | Inl e \<Rightarrow> if a = 3 then Inl e
                  else (case message e of None \<Rightarrow> Inl TypeError | Some m \<Rightarrow> Inl e),
       [Attempt], snd (?load t))"
    if "a \<le> 3" and "\<not> rate_limit_error (fst (?load t))" for a t
    using that by (rule retry_not_rate_limit)
  have surf: "(case (case fst (?load t) of
         Inr v \<Rightarrow> Inr (Some v)
       | Inl e \<Rightarrow> if a = (3::nat) then Inl e
                  else (case message e of None \<Rightarrow> Inl TypeError | Some m \<Rightarrow> Inl e)) of
       Inl e \<Rightarrow> Inl (load_failed e) | Inr docs \<Rightarrow> Inr docs) = surfaced (fst (?load t))"
    if "\<not> rate_limit_error (fst (?load t))" for a t
    using that
    by (auto simp: surfaced_def rate_limit_error_def load_failed_no_message load_failed_other
        load_failed_TypeError split: sum.splits option.splits)
  have up1: "retry env ?load 3 1 s0 = (r, Attempt # Sleep 2000 # tr, t)"
    if "rate_limit_error (fst (?load s0))" and "retry env ?load 3 2 s1 = (r, tr, t)" for r tr t
    using retry_step [of ?load s0 1 3 env r tr t] that by (simp add: s1_def eval_nat_numeral)
  have up2: "retry env ?load 3 2 s1 = (r, Attempt # Sleep 4000 # tr, t)"
    if "rate_limit_error (fst (?load s1))" and "retry env ?load 3 3 s2 = (r, tr, t)" for r tr t
    using retry_step [of ?load s1 2 3 env r tr t] that by (simp add: s2_def eval_nat_numeral)
  have c0: "loadGithubRepo env url token s0 = (surfaced (fst (?load s0)), [Attempt], snd (?load s0))"
    if n: "newLoader env url token = None" and "\<not> rate_limit_error (fst (?load s0))"
    using loadGithubRepo_of_retry [OF n fin [of 1 s0]] that surf [of s0 1] by simp
  have c1: "loadGithubRepo env url token s0 =
      (surfaced (fst (?load s1)), [Attempt, Sleep 2000, Attempt], snd (?load s1))"
    if n: "newLoader env url token = None" and r0: "rate_limit_error (fst (?load s0))"
      and r1: "\<not> rate_limit_error (fst (?load s1))"
    using loadGithubRepo_of_retry [OF n up1 [OF r0 fin [of 2 s1]]] r1 surf [of s1 2] by simp
  have c2: "loadGithubRepo env url token s0 =
      (surfaced (fst (?load s2)), [Attempt, Sleep 2000, Attempt, Sleep 4000, Attempt],
       snd (?load s2))"
    if n: "newLoader env url token = None" and r0: "rate_limit_error (fst (?load s0))"
      and r1: "rate_limit_error (fst (?load s1))"
      and r2: "\<not> rate_limit_error (fst (?load s2))"
    using loadGithubRepo_of_retry [OF n up1 [OF r0 up2 [OF r1 fin [of 3 s2]]]] r2 surf [of s2 3]
    by simp
  have c3: "loadGithubRepo env url token s0 =
      (Inl (Error token_advice), [Attempt, Sleep 2000, Attempt, Sleep 4000, Attempt],
       snd (?load s2))"
    if n: "newLoader env url token = None" and r0: "rate_limit_error (fst (?load s0))"
      and r1: "rate_limit_error (fst (?load s1))"
      and r2: "rate_limit_error (fst (?load s2))"
  proof -
    obtain e3 s3 where l3: "?load s2 = (Inl e3, s3)" and m3: "load_failed e3 = Error token_advice"
      using r2
      by (cases "?load s2")
        (auto simp: rate_limit_error_def load_failed_def split: sum.splits option.splits)
    have "retry env ?load 3 3 s2 = (Inl e3, [Attempt], s3)"
      using l3 by (rule retry_last)
    from loadGithubRepo_of_retry [OF n up1 [OF r0 up2 [OF r1 this]]] m3 l3
    show ?thesis by simp
  qed
  have other: "surfaced r \<noteq> Inl (Error token_advice)" if "\<not> rate_limit_error r" for r
  proof (cases r)
    case (Inr docs)
    then show ?thesis by (simp add: surfaced_def)
  next
    case (Inl e1)
    show ?thesis
    proof (cases "message e1")
      case None
      with Inl show ?thesis
        by (simp add: surfaced_def TypeError_def Error_def token_advice_def)
    next
      case (Some m1)
      with Inl that have "\<not> rate_limit_message m1" by (simp add: rate_limit_error_def)
      with Inl Some token_advice_rate_limit show ?thesis
        by (auto simp: surfaced_def Error_def)
    qed
  qed
  have c4: "rate_limit_error (fst (?load s0)) \<and> rate_limit_error (fst (?load s1))
      \<and> rate_limit_error (fst (?load s2))"
    if n: "newLoader env url token = None"
      and t: "fst (loadGithubRepo env url token s0) = Inl (Error token_advice)"
  proof -
    have r0: "rate_limit_error (fst (?load s0))"
      using c0 [OF n] other [of "fst (?load s0)"] t by force
    have r1: "rate_limit_error (fst (?load s1))"
      using c1 [OF n r0] other [of "fst (?load s1)"] t by force
    have r2: "rate_limit_error (fst (?load s2))"
      using c2 [OF n r0 r1] other [of "fst (?load s2)"] t by force
    from r0 r1 r2 show ?thesis by simp
  qed
  show "newLoader env url token = None
    \<longrightarrow> (let load = call (loader_load env url token);
             s1 = after_wait env load 2000 s0; s2 = after_wait env load 4000 s1;
             surfaced = (\<lambda>r. case r of
                             Inr docs \<Rightarrow> Inr (Some docs)
                           | Inl e \<Rightarrow> (case message e of None \<Rightarrow> Inl TypeError
                                                     | Some m \<Rightarrow> Inl e))
         in (\<not> rate_limit_error (fst (load s0))
             \<longrightarrow> loadGithubRepo env url token s0 =
                   (surfaced (fst (load s0)), [Attempt], snd (load s0)))
          \<and> (rate_limit_error (fst (load s0)) \<and> \<not> rate_limit_error (fst (load s1))
             \<longrightarrow> loadGithubRepo env url token s0 =
                   (surfaced (fst (load s1)), [Attempt, Sleep 2000, Attempt], snd (load s1)))
          \<and> (rate_limit_error (fst (load s0)) \<and> rate_limit_error (fst (load s1))
               \<and> \<not> rate_limit_error (fst (load s2))
             \<longrightarrow> loadGithubRepo env url token s0 =
                   (surfaced (fst (load s2)),
                    [Attempt, Sleep 2000, Attempt, Sleep 4000, Attempt], snd (load s2)))
          \<and> (rate_limit_error (fst (load s0)) \<and> rate_limit_error (fst (load s1))
               \<and> rate_limit_error (fst (load s2))
             \<longrightarrow> loadGithubRepo env url token s0 =
                   (Inl (Error token_advice),
                    [Attempt, Sleep 2000, Attempt, Sleep 4000, Attempt], snd (load s2)))
          \<and> (fst (loadGithubRepo env url token s0) = Inl (Error token_advice)
             \<longrightarrow> rate_limit_error (fst (load s0)) \<and> rate_limit_error (fst (load s1))
                 \<and> rate_limit_error (fst (load s2))))"
    unfolding Let_def s1_def [symmetric] s2_def [symmetric] surfaced_def [symmetric]
    using c0 c1 c2 c3 c4 by blast
next
  show "newLoader env url token = None
        \<and> call (loader_load env url token) s = (Inl e, s') \<and> message e = Some m
        \<and> \<not> rate_limit_message m
       \<longrightarrow> loadGithubRepo env url token s = (Inl e, [Attempt], s')"
    using retry_other_error [of 1 3 "call (loader_load env url token)" s e s' m env]
    by (simp add: loadGithubRepo_def load_failed_def)
next
  show "k \<le> 3 \<and> fn s = (Inl e, s') \<and> message e = Some m \<and> \<not> rate_limit_message m
       \<longrightarrow> retry env fn 3 k s = (Inl e, [Attempt], s')"
    using retry_other_error [of k 3 fn s e s' m env] by simp
next
  show "loadGithubRepo env url token s = (r, tr, s'')
       \<longrightarrow> attempts tr \<le> 3 \<and> (\<forall>d. Sleep d \<in> set tr \<longrightarrow> 2000 \<le> d \<and> d \<le> 10000)
           \<and> (r = Inl (Error token_advice) \<and> newLoader env url token = None
              \<longrightarrow> attempts tr = 3)"
  proof (cases "newLoader env url token")
    case (Some e1)
    then show ?thesis by (auto simp: loadGithubRepo_def attempts_def)
  next
    case None
    show ?thesis
    proof
      assume run: "loadGithubRepo env url token s = (r, tr, s'')"
      obtain r0 where rt: "retry env (call (loader_load env url token)) 3 1 s = (r0, tr, s'')"
        and r: "r = (case r0 of Inl error \<Rightarrow> Inl (load_failed error) | Inr docs \<Rightarrow> Inr docs)"
        using run None
        by (cases "retry env (call (loader_load env url token)) 3 1 s")
          (auto simp: loadGithubRepo_def split: sum.splits)
      from retry_trace [OF rt] have tr: "attempts tr \<le> 3"
        "\<forall>d. Sleep d \<in> set tr \<longrightarrow> 2000 \<le> d \<and> d \<le> 10000" by auto
      have "attempts tr = 3" if t: "r = Inl (Error token_advice)"
      proof -
        from t r obtain e0 where e0: "r0 = Inl e0" "load_failed e0 = Error token_advice"
          by (cases r0) auto
        from retry_rejection [OF rt [unfolded e0(1)]]
        have "attempts tr = 3 \<or> (\<exists>m. message e0 = Some m \<and> \<not> rate_limit_message m)" by simp
        then show ?thesis
        proof
          assume "\<exists>m. message e0 = Some m \<and> \<not> rate_limit_message m"
          then obtain m where m: "message e0 = Some m" "\<not> rate_limit_message m" by blast
          then have "load_failed e0 = e0" by (simp add: load_failed_def)
          with e0(2) m have "message (Error token_advice) = Some m" by simp
          then have "m = token_advice" by (simp add: Error_def)
          with m(2) token_advice_rate_limit show ?thesis by simp
        qed
      qed
      with tr show "attempts tr \<le> 3 \<and> (\<forall>d. Sleep d \<in> set tr \<longrightarrow> 2000 \<le> d \<and> d \<le> 10000)
           \<and> (r = Inl (Error token_advice) \<and> newLoader env url token = None
              \<longrightarrow> attempts tr = 3)" by simp
    qed
  qed
qed

lemmas loader_defs = limited_env_def limited_then_404_env_def no_loader_env_def
  rate_limit_exceeded_def readme_def rate_limit_message_def rate_limit_error_def Error_def
  TypeError_def

theorem loadGithubRepo_backoff_witness:
  "loadGithubRepo (limited_env 3) repo_url None start =
     (Inl (Error token_advice), [Attempt, Sleep 2000, Attempt, Sleep 4000, Attempt],
      start\<lparr>world := 3\<rparr>)
   \<and> loadGithubRepo (limited_env 2) repo_url None start =
     (Inr (Some [readme]), [Attempt, Sleep 2000, Attempt, Sleep 4000, Attempt],
      start\<lparr>world := 3\<rparr>)
   \<and> loadGithubRepo limited_then_404_env repo_url None start =
     (Inl \<lparr>status = Some 404, message = Some ''Not Found''\<rparr>, [Attempt, Sleep 2000, Attempt],
      start\<lparr>world := 2\<rparr>)
   \<and> loadGithubRepo dead_env repo_url None start = (Inl unavailable, [Attempt], start\<lparr>world := 1\<rparr>)
   \<and> loadGithubRepo no_loader_env repo_url None start = (Inl (Error token_advice), [], start)
   \<and> retry dead_env not_found 3 2 start
       = (Inl \<lparr>status = Some 404, message = Some ''Not Found''\<rparr>, [Attempt], start\<lparr>world := 1\<rparr>)
   \<and> attempts [Attempt, Sleep 2000, Attempt, Sleep 4000, Attempt] = 3"
proof -
  note run = loadGithubRepo_backoff [where url = repo_url and token = None and ?s0.0 = start
      and ?e0.0 = rate_limit_exceeded and s = start and fn = not_found]
  have a: "loadGithubRepo (limited_env 3) repo_url None start =
     (Inl (Error token_advice), [Attempt, Sleep 2000, Attempt, Sleep 4000, Attempt],
      start\<lparr>world := 3\<rparr>)"
    using run [where env = "limited_env 3" and k = 0 and e = unavailable and s' = start
        and m = "[]" and r = "Inr None" and tr = "[]" and s'' = start]
    by (simp add: loader_defs example_defs Let_def)
  have b: "loadGithubRepo (limited_env 2) repo_url None start =
     (Inr (Some [readme]), [Attempt, Sleep 2000, Attempt, Sleep 4000, Attempt],
      start\<lparr>world := 3\<rparr>)"
    using run [where env = "limited_env 2" and k = 0 and e = unavailable and s' = start
        and m = "[]" and r = "Inr None" and tr = "[]" and s'' = start]
    by (simp add: loader_defs example_defs Let_def)
  have c: "loadGithubRepo limited_then_404_env repo_url None start =
     (Inl \<lparr>status = Some 404, message = Some ''Not Found''\<rparr>, [Attempt, Sleep 2000, Attempt],
      start\<lparr>world := 2\<rparr>)"
    using run [where env = limited_then_404_env and k = 0 and e = unavailable and s' = start
        and m = "[]" and r = "Inr None" and tr = "[]" and s'' = start]
    by (simp add: loader_defs example_defs Let_def)
  have d: "loadGithubRepo dead_env repo_url None start
        = (Inl unavailable, [Attempt], start\<lparr>world := 1\<rparr>)
     \<and> retry dead_env not_found 3 2 start
       = (Inl \<lparr>status = Some 404, message = Some ''Not Found''\<rparr>, [Attempt], start\<lparr>world := 1\<rparr>)"
    using run [where env = dead_env and k = 2
        and e = "\<lparr>status = Some 404, message = Some ''Not Found''\<rparr>"
        and s' = "start\<lparr>world := 1\<rparr>"
        and m = "''Not Found''" and r = "Inr None" and tr = "[]" and s'' = start]
    by (simp add: loader_defs example_defs Let_def)
  have e: "loadGithubRepo no_loader_env repo_url None start = (Inl (Error token_advice), [], start)"
    using run [where env = no_loader_env and k = 0 and e = unavailable and s' = start
        and m = "[]" and r = "Inr None" and tr = "[]" and s'' = start]
    by (simp add: loader_defs example_defs Let_def)
  have f: "attempts [Attempt, Sleep 2000, Attempt, Sleep 4000, Attempt] = 3"
    using a run [where env = "limited_env 3" and k = 0 and e = unavailable and s' = start
        and m = "[]" and r = "Inl (Error token_advice)"
        and tr = "[Attempt, Sleep 2000, Attempt, Sleep 4000, Attempt]"
        and s'' = "start\<lparr>world := 3\<rparr>"]
    by (simp add: loader_defs example_defs)
  from a b c d e f show ?thesis by simp
qed

text \<open>
  C6 as stated fails: after one rate-limit error the program waits 2000 ms, not 1000 ms,
  before the second attempt.
\<close>

theorem loadGithubRepo_first_wait_counterexample:
  "loadGithubRepo (limited_env 1) repo_url None start
     = (Inr (Some [readme]), [Attempt, Sleep 2000, Attempt], start\<lparr>world := 2\<rparr>)
   \<and> Sleep 1000 \<notin> set (fst (snd (loadGithubRepo (limited_env 1) repo_url None start)))"
  by (simp add: loadGithubRepo_def retry.simps Let_def loader_defs example_defs)

section \<open>Persisting the embedding of a file\<close>







lemmas index_defs = index_env_def strict_embed_env_def update_fails_env_def file_a_def file_b_def
  bad_request_def embedded_b_def file_row_def fresh_id_def


lemmas indexGithubRepo_eval = indexGithubRepo_def loadGithubRepo_def retry.simps
  generateEmbeddings_def summariseCode_def generateEmbedding_def json_copy_def persist_def
  falsy_def db_sourceCodeEmbedding_create_def db_executeRaw_update_def prisma_def
  promise_allSettled_def untraced_def await_def resolve_def throw_def try_catch_def Let_def


lemma summariseCode_never_rejects:
  "\<exists>text s'. summariseCode env doc s = (Inr text, s')"
  unfolding summariseCode_def by (rule try_catch_resolves)

lemma summariseCode_failure:
  assumes "fst (generateContent env (summary_prompt (metadata_source doc) (take 10000 (pageContent doc)))
             (world s)) = Inl e"
  shows "\<exists>s'. summariseCode env doc s = (Inr [], s')"
  using assms
  by (cases "generateContent env (summary_prompt (metadata_source doc) (take 10000 (pageContent doc)))
             (world s)")
    (simp add: summariseCode_def try_catch_def call_def resolve_def Let_def)

text \<open>
  C5 fails on the code. The summariser fails for \<open>a.ts\<close>: its summary is the empty string,
  the guard \<^verbatim>\<open>if (!embedding) return\<close> does not skip it, and a row with the empty summary
  is stored. When the embedding model rejects the empty text, \<^verbatim>\<open>Promise.all\<close> in
  generateEmbeddings rejects, and no row is stored for \<open>b.ts\<close> either.
\<close>

theorem indexGithubRepo_failed_summary:
  "summariseCode index_env file_a (start\<lparr>world := 1\<rparr>) = (Inr [], start\<lparr>world := 2\<rparr>)
   \<and> indexGithubRepo index_env ''p1'' repo_url None start =
     (Inr (), \<lparr>world = 5, db = empty_db\<lparr>embeddings :=
        [\<lparr>fileName = ''a.ts'', sourceCode = ''export const a = 1'', summary_f = [],
          row_id = 1, projectId_f = ''p1'', summaryEmbedding = Some [1, 0]\<rparr>,
         \<lparr>fileName = ''b.ts'', sourceCode = ''export const b = 2'', summary_f = ''A module'',
          row_id = 2, projectId_f = ''p1'', summaryEmbedding = Some [1, 0]\<rparr>]\<rparr>\<rparr>)
   \<and> indexGithubRepo strict_embed_env ''p1'' repo_url None start =
     (Inl bad_request, \<lparr>world = 5, db = empty_db\<rparr>)"
  by (simp add: indexGithubRepo_eval index_defs example_defs)

section \<open>The vector search\<close>

lemma db_queryRaw_outcome:
  "db_queryRaw env statement s =
     (case dbFault env QueryRaw (world s) of
        (Some e, w) \<Rightarrow> (Inl e, s\<lparr>world := w\<rparr>)
      | (None, w) \<Rightarrow> (queryRaw env statement (db s), s\<lparr>world := w\<rparr>))"
  by (simp add: db_queryRaw_def await_def prisma_def throw_def resolve_def
      split: prod.splits option.splits sum.splits)

text \<open>
  performVectorSearch returns the rows with which the engine answers the statement, and
  throws its own error when the storage layer rejects the call or the engine rejects the
  statement. The data store is not changed.
\<close>

lemma performVectorSearch_outcome:
  "performVectorSearch env q pid s =
     (case dbFault env QueryRaw (world s) of
        (Some e, w) \<Rightarrow> (Inl (Error ''Failed to search codebase''), s\<lparr>world := w\<rparr>)
      | (None, w) \<Rightarrow>
          (case queryRaw env (vector_search q pid) (db s) of
             Inl e \<Rightarrow> (Inl (Error ''Failed to search codebase''), s\<lparr>world := w\<rparr>)
           | Inr rows \<Rightarrow> (Inr rows, s\<lparr>world := w\<rparr>)))"
  by (simp add: performVectorSearch_def try_catch_def db_queryRaw_outcome throw_def
      split: prod.splits option.splits sum.splits)

lemma performVectorSearch_keeps_db:
  "db (snd (performVectorSearch env q pid s)) = db s"
  by (simp add: performVectorSearch_outcome split: prod.splits option.splits sum.splits)

lemma performVectorSearch_rejected_statement:
  assumes "queryRaw env (vector_search q pid) (db s) = Inl e"
  shows "fst (performVectorSearch env q pid s) = Inl (Error ''Failed to search codebase'')"
  using assms
  by (simp add: performVectorSearch_outcome split: prod.splits option.splits sum.splits)

lemmas search_defs = search_env_def stored_file_def five_files_def found_def
  five_files_state_def rag_env_def silent_env_def hello_stream_def

text \<open>
  C2. The statement of performVectorSearch applies the operator \<^verbatim>\<open><==>\<close> to the stored
  embedding and the query vector. pgvector spells the cosine distance \<^verbatim>\<open><=>\<close> and defines
  no operator \<^verbatim>\<open><==>\<close>, so the engine rejects the statement: for every query vector,
  project and state, performVectorSearch throws "Failed to search codebase" and returns
  no row, also for the five stored files of which the search is to return those with a
  similarity above 0.5. The data store is left as it was.
\<close>

theorem performVectorSearch_undefined_operator:
  "distance_operator (vector_search q pid) = ''<==>''
   \<and> ''<==>'' \<notin> set pgvector_operators
   \<and> ''<=>'' \<in> set pgvector_operators
   \<and> performVectorSearch (pgvector_env rows) q pid s
       = (Inl (Error ''Failed to search codebase''), s)
   \<and> performVectorSearch (pgvector_env rows) [1, 0] ''p1'' (five_files_state 0)
       = (Inl (Error ''Failed to search codebase''), five_files_state 0)"
  by (simp add: performVectorSearch_outcome vector_search_def pgvector_env_def
      pgvector_operators_def search_defs example_defs)

section \<open>The streamed answer\<close>

lemma forward_events: "forward cs events = events @ map Update cs"
  by (induction cs arbitrary: events) simp_all

lemma stream_answer_events:
  "stream_answer env prompt s =
     (case generateContentStream env prompt (world s) of
        (Inl e, w) \<Rightarrow> ([Failed (Error ''Failed to generate response'')], s\<lparr>world := w\<rparr>)
      | (Inr st, w) \<Rightarrow>
          (map Update (chunks st) @ [case failure st of None \<Rightarrow> Done | Some e \<Rightarrow> Failed e],
           s\<lparr>world := w\<rparr>))"
  by (cases "generateContentStream env prompt (world s)")
    (auto simp: stream_answer_def streamText_def try_catch_def call_def throw_def forward_events
      split: sum.splits option.splits)

text \<open>
  C8. The stream of askQuestion always ends with exactly one final event, after values
  only. When the embedding of the question and the search succeed, it carries the chunks
  of the completion in their order and then \<open>Failed\<close> with the error when the completion
  fails after its chunks (or does not start), \<open>Done\<close> when it ends normally; the final
  event is \<open>Done\<close> only when the completion ended normally.
\<close>

theorem askQuestion_stream:
  "(generateEmbedding env question s = (Inr qv, s1)
      \<and> performVectorSearch env qv pid s1 = (Inr refs, s2)
      \<and> generateContentStream env (generatePrompt (formatContext refs) question) (world s2)
          = (Inr \<lparr>chunks = cs, failure = Some e\<rparr>, w)
     \<longrightarrow> askQuestion env question pid s
           = (Inr refs, map Update cs @ [Failed e], s2\<lparr>world := w\<rparr>))
   \<and> (generateEmbedding env question s = (Inr qv, s1)
      \<and> performVectorSearch env qv pid s1 = (Inr refs, s2)
      \<and> generateContentStream env (generatePrompt (formatContext refs) question) (world s2)
          = (Inr \<lparr>chunks = cs, failure = None\<rparr>, w)
     \<longrightarrow> askQuestion env question pid s
           = (Inr refs, map Update cs @ [Done], s2\<lparr>world := w\<rparr>))
   \<and> (generateEmbedding env question s = (Inr qv, s1)
      \<and> performVectorSearch env qv pid s1 = (Inr refs, s2)
      \<and> generateContentStream env (generatePrompt (formatContext refs) question) (world s2)
          = (Inl e, w)
     \<longrightarrow> askQuestion env question pid s
           = (Inr refs, [Failed (Error ''Failed to generate response'')], s2\<lparr>world := w\<rparr>))
   \<and> (\<exists>ds final. fst (snd (askQuestion env question pid s)) = map Update ds @ [final]
         \<and> (final = Done \<or> (\<exists>e'. final = Failed e')))
   \<and> (generateEmbedding env question s = (Inr qv, s1)
      \<and> performVectorSearch env qv pid s1 = (Inr refs, s2)
     \<longrightarrow> (last (fst (snd (askQuestion env question pid s))) = Done \<longleftrightarrow>
            (\<exists>st. fst (generateContentStream env (generatePrompt (formatContext refs) question)
                          (world s2)) = Inr st \<and> failure st = None)))
   \<and> (last (fst (snd (askQuestion env question pid s))) = Done
     \<longrightarrow> (\<exists>found. fst (askQuestion env question pid s) = Inr found))"
proof -
  let ?prompt = "generatePrompt (formatContext refs) question"
  have ask: "askQuestion env question pid s =
      (case stream_answer env ?prompt s2 of (events, s3) \<Rightarrow> (Inr refs, events, s3))"
    if "generateEmbedding env question s = (Inr qv, s1)"
      and "performVectorSearch env qv pid s1 = (Inr refs, s2)"
    using that by (simp add: askQuestion_def Let_def)
  have answer: "\<exists>ds final. fst (stream_answer env p t) = map Update ds @ [final]
       \<and> (final = Done \<or> (\<exists>e'. final = Failed e'))
       \<and> (final = Done \<longleftrightarrow>
            (\<exists>st. fst (generateContentStream env p (world t)) = Inr st \<and> failure st = None))"
    for p t
  proof (cases "generateContentStream env p (world t)")
    case (Pair r w')
    show ?thesis
    proof (cases r)
      case (Inl e0)
      with Pair show ?thesis
        by (intro exI [of _ "[]"] exI [of _ "Failed (Error ''Failed to generate response'')"])
          (simp add: stream_answer_events)
    next
      case (Inr st)
      with Pair show ?thesis
        by (intro exI [of _ "chunks st"]
            exI [of _ "case failure st of None \<Rightarrow> Done | Some e \<Rightarrow> Failed e"])
          (auto simp: stream_answer_events split: option.splits)
    qed
  qed
  have ends: "\<exists>ds final. fst (snd (askQuestion env question pid s)) = map Update ds @ [final]
         \<and> (final = Done \<or> (\<exists>e'. final = Failed e'))"
   and only: "last (fst (snd (askQuestion env question pid s))) = Done
     \<longrightarrow> (\<exists>found. fst (askQuestion env question pid s) = Inr found)"
  proof -
    obtain r1 t1 where e: "generateEmbedding env question s = (r1, t1)"
      by (cases "generateEmbedding env question s")
    show "\<exists>ds final. fst (snd (askQuestion env question pid s)) = map Update ds @ [final]
         \<and> (final = Done \<or> (\<exists>e'. final = Failed e'))"
     and "last (fst (snd (askQuestion env question pid s))) = Done
       \<longrightarrow> (\<exists>found. fst (askQuestion env question pid s) = Inr found)"
    proof (atomize (full), cases r1)
      case (Inl e1)
      with e have "askQuestion env question pid s = (Inl e1, map Update [] @ [Failed e1], t1)"
        by (simp add: askQuestion_def)
      then show "(\<exists>ds final. fst (snd (askQuestion env question pid s)) = map Update ds @ [final]
         \<and> (final = Done \<or> (\<exists>e'. final = Failed e')))
       \<and> (last (fst (snd (askQuestion env question pid s))) = Done
       \<longrightarrow> (\<exists>found. fst (askQuestion env question pid s) = Inr found))"
        by (metis append_Nil fst_conv last.simps list.simps(8) snd_conv stream_event.distinct(5))
    next
      case (Inr v)
      obtain r2 t2 where p: "performVectorSearch env v pid t1 = (r2, t2)"
        by (cases "performVectorSearch env v pid t1")
      show "(\<exists>ds final. fst (snd (askQuestion env question pid s)) = map Update ds @ [final]
         \<and> (final = Done \<or> (\<exists>e'. final = Failed e')))
       \<and> (last (fst (snd (askQuestion env question pid s))) = Done
       \<longrightarrow> (\<exists>found. fst (askQuestion env question pid s) = Inr found))"
      proof (cases r2)
        case (Inl e2)
        with e Inr p have "askQuestion env question pid s = (Inl e2, map Update [] @ [Failed e2], t2)"
          by (simp add: askQuestion_def)
        then show ?thesis
          by (metis append_Nil fst_conv last.simps list.simps(8) snd_conv stream_event.distinct(5))
      next
        case found: (Inr fs)
        have "askQuestion env question pid s =
            (Inr fs, fst (stream_answer env (generatePrompt (formatContext fs) question) t2),
             snd (stream_answer env (generatePrompt (formatContext fs) question) t2))"
          using e Inr p found by (simp add: askQuestion_def Let_def split: prod.splits)
        with answer [of "generatePrompt (formatContext fs) question" t2] show ?thesis
          by auto
      qed
    qed
  qed
  have done_iff: "last (fst (snd (askQuestion env question pid s))) = Done \<longleftrightarrow>
            (\<exists>st. fst (generateContentStream env ?prompt (world s2)) = Inr st \<and> failure st = None)"
    if a: "generateEmbedding env question s = (Inr qv, s1)"
      "performVectorSearch env qv pid s1 = (Inr refs, s2)"
  proof -
    from answer [of ?prompt s2] obtain ds final where
      f: "fst (stream_answer env ?prompt s2) = map Update ds @ [final]"
        "final = Done \<longleftrightarrow>
            (\<exists>st. fst (generateContentStream env ?prompt (world s2)) = Inr st \<and> failure st = None)"
      by blast
    have "fst (snd (askQuestion env question pid s)) = map Update ds @ [final]"
      using ask [OF a] f(1) by (simp split: prod.splits)
    with f(2) show ?thesis by simp
  qed
  show ?thesis
    using ask ends only done_iff by (simp add: stream_answer_events)
qed

theorem askQuestion_stream_witness:
  "askQuestion (rag_env (Some unavailable)) ''Where is the home page?'' ''p1'' (five_files_state 0)
     = (Inr [found ''E1'' 0.9, found ''E4'' 0.6],
        [Update ''Hel'', Update ''lo, '', Update '' world'', Failed unavailable],
        five_files_state 2)
   \<and> askQuestion (rag_env None) ''Where is the home page?'' ''p1'' (five_files_state 0)
     = (Inr [found ''E1'' 0.9, found ''E4'' 0.6],
        [Update ''Hel'', Update ''lo, '', Update '' world'', Done],
        five_files_state 2)"
proof -
  have e: "generateEmbedding (rag_env fin) ''Where is the home page?'' (five_files_state 0)
      = (Inr [1, 0], five_files_state 1)" for fin
    by (simp add: generateEmbedding_def call_def search_defs example_defs)
  have p: "performVectorSearch (rag_env fin) [1, 0] ''p1'' (five_files_state 1)
     = (Inr [found ''E1'' 0.9, found ''E4'' 0.6], five_files_state 1)" for fin
    by (simp add: performVectorSearch_outcome search_defs example_defs)
  have a: "askQuestion (rag_env (Some unavailable)) ''Where is the home page?'' ''p1''
        (five_files_state 0)
     = (Inr [found ''E1'' 0.9, found ''E4'' 0.6],
        [Update ''Hel'', Update ''lo, '', Update '' world'', Failed unavailable],
        five_files_state 2)"
    using e [of "Some unavailable"] p [of "Some unavailable"]
      askQuestion_stream [where env = "rag_env (Some unavailable)"
        and question = "''Where is the home page?''" and pid = "''p1''"
        and s = "five_files_state 0" and qv = "[1, 0]" and ?s1.0 = "five_files_state 1"
        and refs = "[found ''E1'' 0.9, found ''E4'' 0.6]" and ?s2.0 = "five_files_state 1"
        and cs = "[''Hel'', ''lo, '', '' world'']" and e = unavailable and w = 2,
        THEN conjunct1]
    by (simp add: search_defs example_defs)
  have b: "askQuestion (rag_env None) ''Where is the home page?'' ''p1'' (five_files_state 0)
     = (Inr [found ''E1'' 0.9, found ''E4'' 0.6],
        [Update ''Hel'', Update ''lo, '', Update '' world'', Done],
        five_files_state 2)"
    using e [of None] p [of None]
      askQuestion_stream [where env = "rag_env None"
        and question = "''Where is the home page?''" and pid = "''p1''"
        and s = "five_files_state 0" and qv = "[1, 0]" and ?s1.0 = "five_files_state 1"
        and refs = "[found ''E1'' 0.9, found ''E4'' 0.6]" and ?s2.0 = "five_files_state 1"
        and cs = "[''Hel'', ''lo, '', '' world'']" and e = unavailable and w = 2,
        THEN conjunct2, THEN conjunct1]
    by (simp add: search_defs example_defs)
  have e': "generateEmbedding silent_env ''Where is the home page?'' (five_files_state 0)
      = (Inr [1, 0], five_files_state 1)"
    by (simp add: generateEmbedding_def call_def search_defs example_defs)
  have p': "performVectorSearch silent_env [1, 0] ''p1'' (five_files_state 1)
     = (Inr [found ''E1'' 0.9, found ''E4'' 0.6], five_files_state 1)"
    by (simp add: performVectorSearch_outcome search_defs example_defs)
  have c: "askQuestion silent_env ''Where is the home page?'' ''p1'' (five_files_state 0)
     = (Inr [found ''E1'' 0.9, found ''E4'' 0.6],
        [Failed (Error ''Failed to generate response'')], five_files_state 2)"
    using e' p'
      askQuestion_stream [where env = silent_env
        and question = "''Where is the home page?''" and pid = "''p1''"
        and s = "five_files_state 0" and qv = "[1, 0]" and ?s1.0 = "five_files_state 1"
        and refs = "[found ''E1'' 0.9, found ''E4'' 0.6]" and ?s2.0 = "five_files_state 1"
        and cs = "[]" and e = unavailable and w = 2,
        THEN conjunct2, THEN conjunct2, THEN conjunct1]
    by (simp add: search_defs example_defs)
  from a b c show ?thesis by simp
qed

end
